theory Spec2Isabelle
  imports Main "HOL-Library.Word"
begin

section \<open>Values and exceptions\<close>

text \<open>
  The program is one C++ file, \<^verbatim>\<open>Source.cpp\<close>, that drives the SQLite C API. A C++
  \<^verbatim>\<open>int\<close> is a 32-bit word read as two's complement (\<open>sint\<close>); a
  \<^verbatim>\<open>std::string\<close> is a list of bytes whose \<open>length\<close> is what
  \<^verbatim>\<open>std::string::length\<close> returns. A pointer handed out by the engine is a natural
  number, \<open>0\<close> being the null pointer. A thrown exception is the \<open>Inl\<close> of a result.
\<close>

type_synonym cint = "32 word"

type_synonym handle = nat

datatype exn = runtime_error string | invalid_argument string

fun what :: "exn \<Rightarrow> string" where
  "what (runtime_error m) = m"
| "what (invalid_argument m) = m"

text \<open>
  \<^verbatim>\<open>s.c_str()\<close> read by a C API as a zero-terminated string (all the engine calls of
  the program pass the length \<^verbatim>\<open>-1\<close>): the bytes before the first zero byte.
\<close>

definition c_str :: "string \<Rightarrow> string" where
  "c_str s = takeWhile (\<lambda>c. c \<noteq> CHR 0x00) s"

abbreviation endl :: string where
  "endl \<equiv> [CHR 0x0A]"

section \<open>The engine\<close>

text \<open>
  SQLite is an external library. Its part that the program reaches is modelled after the
  documentation of the C API: result codes, handles that stay allocated until they are
  finalized or closed, and the four SQL texts that the program issues. Any other SQL text
  is rejected as not understood.
\<close>

abbreviation (input) SQLITE_OK :: int where "SQLITE_OK \<equiv> 0"
abbreviation (input) SQLITE_ERROR :: int where "SQLITE_ERROR \<equiv> 1"
abbreviation (input) SQLITE_ABORT :: int where "SQLITE_ABORT \<equiv> 4"
abbreviation (input) SQLITE_BUSY :: int where "SQLITE_BUSY \<equiv> 5"
abbreviation (input) SQLITE_NOMEM :: int where "SQLITE_NOMEM \<equiv> 7"
abbreviation (input) SQLITE_IOERR :: int where "SQLITE_IOERR \<equiv> 10"
abbreviation (input) SQLITE_FULL :: int where "SQLITE_FULL \<equiv> 13"
abbreviation (input) SQLITE_CANTOPEN :: int where "SQLITE_CANTOPEN \<equiv> 14"
abbreviation (input) SQLITE_CONSTRAINT :: int where "SQLITE_CONSTRAINT \<equiv> 19"
abbreviation (input) SQLITE_MISUSE :: int where "SQLITE_MISUSE \<equiv> 21"
abbreviation (input) SQLITE_RANGE :: int where "SQLITE_RANGE \<equiv> 25"
abbreviation (input) SQLITE_DONE :: int where "SQLITE_DONE \<equiv> 101"

datatype sql_value = SqlNull | SqlInt int | SqlText string

text \<open>A row of the table \<^verbatim>\<open>Users\<close>: the columns ID, Name and Age.\<close>

record user_row =
  row_id :: int
  row_name :: sql_value
  row_age :: sql_value

text \<open>
  The table with its AUTOINCREMENT counter (the \<^verbatim>\<open>sqlite_sequence\<close> entry: the
  largest ROWID the table has ever held).
\<close>

record users_table =
  tbl_rows :: "user_row list"
  tbl_seq :: int

datatype sql_stmt = InsertUsers | UpdateUsers

text \<open>A prepared statement: what it was compiled from, its connection, its parameters.\<close>

record stmt =
  st_kind :: sql_stmt
  st_owner :: handle
  st_params :: "sql_value list"

text \<open>
  What the environment does to an engine call: nothing, or a failure that the program
  cannot influence (no memory, a failing disk, a lock held by another process, a path
  that cannot be opened).
\<close>

datatype env_fault = NoFault | OutOfMemory | IoError | Busy | CantOpen

fun fault_code :: "env_fault \<Rightarrow> int" where
  "fault_code NoFault = SQLITE_OK"
| "fault_code OutOfMemory = SQLITE_NOMEM"
| "fault_code IoError = SQLITE_IOERR"
| "fault_code Busy = SQLITE_BUSY"
| "fault_code CantOpen = SQLITE_CANTOPEN"

fun fault_msg :: "env_fault \<Rightarrow> string" where
  "fault_msg NoFault = ''not an error''"
| "fault_msg OutOfMemory = ''out of memory''"
| "fault_msg IoError = ''disk I/O error''"
| "fault_msg Busy = ''database is locked''"
| "fault_msg CantOpen = ''unable to open database file''"

datatype api_call =
    Open string
  | Close handle
  | Prepare handle string
  | BindText handle nat string
  | BindInt handle nat int
  | Step handle
  | Finalize handle
  | Exec handle string

text \<open>
  The world the program runs in: the faults the environment will inject (one entry is
  consumed by each engine call that can fail for an outside reason; an empty list means
  none), the live connection handles, the live prepared statements, the last handle
  handed out, the storage file's table (\<open>None\<close>: the table does not exist), the
  engine's last error message, the engine calls made so far with their result codes, and
  the two output streams.
\<close>

record world =
  faults :: "env_fault list"
  conns :: "handle list"
  stmts :: "(handle \<times> stmt) list"
  fresh :: nat
  users :: "users_table option"
  errmsg :: string
  trace :: "(api_call \<times> int) list"
  cout :: string
  cerr :: string

definition next_fault :: "world \<Rightarrow> env_fault \<times> world" where
  "next_fault w = (case faults w of [] \<Rightarrow> (NoFault, w) | f # fs \<Rightarrow> (f, w\<lparr>faults := fs\<rparr>))"

definition log_call :: "api_call \<Rightarrow> int \<Rightarrow> world \<Rightarrow> world" where
  "log_call c rc w = w\<lparr>trace := trace w @ [(c, rc)]\<rparr>"

definition fail_call :: "api_call \<Rightarrow> int \<Rightarrow> string \<Rightarrow> world \<Rightarrow> world" where
  "fail_call c rc msg w = log_call c rc (w\<lparr>errmsg := msg\<rparr>)"

definition INSERT_SQL :: string where
  "INSERT_SQL = ''INSERT INTO Users (Name, Age) VALUES (?, ?);''"

definition UPDATE_SQL :: string where
  "UPDATE_SQL = ''UPDATE Users SET Name = ?, Age = ? WHERE ID = ?;''"

definition CREATE_SQL :: string where
  "CREATE_SQL = ''CREATE TABLE IF NOT EXISTS Users ('' @
     ''ID INTEGER PRIMARY KEY AUTOINCREMENT, '' @
     ''Name TEXT NOT NULL, '' @
     ''Age INTEGER NOT NULL);''"

definition SELECT_SQL :: string where
  "SELECT_SQL = ''SELECT * FROM Users;''"

definition parse_sql :: "string \<Rightarrow> sql_stmt option" where
  "parse_sql zSql =
     (if zSql = INSERT_SQL then Some InsertUsers
      else if zSql = UPDATE_SQL then Some UpdateUsers
      else None)"

fun nparams :: "sql_stmt \<Rightarrow> nat" where
  "nparams InsertUsers = 2"
| "nparams UpdateUsers = 3"

text \<open>
  \<^verbatim>\<open>sqlite3_open\<close>: a handle is allocated and returned even when opening fails, and
  must then still be closed; only when there is no memory for the handle itself is the
  null pointer returned.
\<close>

definition sqlite3_open :: "string \<Rightarrow> world \<Rightarrow> (int \<times> handle) \<times> world" where
  "sqlite3_open filename w =
     (case next_fault w of (f, w1) \<Rightarrow>
        if f = OutOfMemory then ((SQLITE_NOMEM, 0), log_call (Open filename) SQLITE_NOMEM w1)
        else
          let h = Suc (fresh w1);
              w2 = w1\<lparr>conns := conns w1 @ [h], fresh := h, errmsg := fault_msg f\<rparr>
          in ((fault_code f, h), log_call (Open filename) (fault_code f) w2))"

definition sqlite3_errmsg :: "handle \<Rightarrow> world \<Rightarrow> string" where
  "sqlite3_errmsg db w = (if db = 0 then ''out of memory'' else errmsg w)"

text \<open>
  \<^verbatim>\<open>sqlite3_close\<close>: harmless on the null pointer; refuses with SQLITE_BUSY, leaving the
  connection open, while the connection still has prepared statements that were not
  finalized.
\<close>

definition sqlite3_close :: "handle \<Rightarrow> world \<Rightarrow> int \<times> world" where
  "sqlite3_close db w =
     (if db = 0 then (SQLITE_OK, log_call (Close db) SQLITE_OK w)
      else if db \<notin> set (conns w) then (SQLITE_MISUSE, log_call (Close db) SQLITE_MISUSE w)
      else if list_ex (\<lambda>(h, s). st_owner s = db) (stmts w)
        then (SQLITE_BUSY, fail_call (Close db) SQLITE_BUSY
                ''unable to close due to unfinalized statements or unfinished backups'' w)
      else (SQLITE_OK, log_call (Close db) SQLITE_OK (w\<lparr>conns := removeAll db (conns w)\<rparr>)))"

text \<open>
  \<^verbatim>\<open>sqlite3_prepare_v2\<close>: on any error the statement pointer is set to null and
  nothing is allocated. The two statements need the table to exist.
\<close>

definition sqlite3_prepare_v2 :: "handle \<Rightarrow> string \<Rightarrow> world \<Rightarrow> (int \<times> handle) \<times> world" where
  "sqlite3_prepare_v2 db zSql w =
     (if db \<notin> set (conns w)
        then ((SQLITE_MISUSE, 0), log_call (Prepare db zSql) SQLITE_MISUSE w)
      else (case next_fault w of (f, w1) \<Rightarrow>
        if f \<noteq> NoFault
          then ((fault_code f, 0), fail_call (Prepare db zSql) (fault_code f) (fault_msg f) w1)
        else (case parse_sql zSql of
          None \<Rightarrow> ((SQLITE_ERROR, 0), fail_call (Prepare db zSql) SQLITE_ERROR ''SQL logic error'' w1)
        | Some k \<Rightarrow>
            (case users w1 of
               None \<Rightarrow> ((SQLITE_ERROR, 0),
                         fail_call (Prepare db zSql) SQLITE_ERROR ''no such table: Users'' w1)
             | Some t \<Rightarrow>
                 (let h = Suc (fresh w1);
                      s = \<lparr>st_kind = k, st_owner = db, st_params = replicate (nparams k) SqlNull\<rparr>
                  in ((SQLITE_OK, h),
                      log_call (Prepare db zSql) SQLITE_OK
                        (w1\<lparr>stmts := (h, s) # stmts w1, fresh := h\<rparr>)))))))"

definition set_param :: "handle \<Rightarrow> nat \<Rightarrow> sql_value \<Rightarrow> (handle \<times> stmt) list \<Rightarrow> (handle \<times> stmt) list" where
  "set_param st i v ss =
     map (\<lambda>(h, s). if h = st then (h, s\<lparr>st_params := (st_params s)[i - 1 := v]\<rparr>) else (h, s)) ss"

text \<open>
  Binding: a parameter that was never bound, or whose binding failed, stays NULL. The
  leftmost parameter has index 1.
\<close>

definition bind_value :: "api_call \<Rightarrow> handle \<Rightarrow> nat \<Rightarrow> sql_value \<Rightarrow> world \<Rightarrow> int \<times> world" where
  "bind_value c st i v w =
     (case map_of (stmts w) st of
        None \<Rightarrow> (SQLITE_MISUSE, log_call c SQLITE_MISUSE w)
      | Some s \<Rightarrow>
          (case next_fault w of (f, w1) \<Rightarrow>
             if f \<noteq> NoFault then (fault_code f, fail_call c (fault_code f) (fault_msg f) w1)
             else if i < 1 \<or> length (st_params s) < i
               then (SQLITE_RANGE, fail_call c SQLITE_RANGE ''column index out of range'' w1)
             else (SQLITE_OK, log_call c SQLITE_OK (w1\<lparr>stmts := set_param st i v (stmts w1)\<rparr>))))"

definition sqlite3_bind_text :: "handle \<Rightarrow> nat \<Rightarrow> string \<Rightarrow> world \<Rightarrow> int \<times> world" where
  "sqlite3_bind_text st i zText w = bind_value (BindText st i zText) st i (SqlText zText) w"

definition sqlite3_bind_int :: "handle \<Rightarrow> nat \<Rightarrow> cint \<Rightarrow> world \<Rightarrow> int \<times> world" where
  "sqlite3_bind_int st i n w = bind_value (BindInt st i (sint n)) st i (SqlInt (sint n)) w"

definition max_rowid :: "user_row list \<Rightarrow> int" where
  "max_rowid rs = foldr max (map row_id rs) 0"

text \<open>
  What a statement does when stepped. An insert takes a ROWID one larger than the largest
  the table has ever held and fails with SQLITE_FULL once the largest 64-bit value is
  used up; both columns are NOT NULL. An update changes the rows whose ID equals the third
  parameter. Values are stored as they were bound (the program binds text to Name and
  integers to Age and ID only, so no column affinity conversion arises).
\<close>

fun run_stmt :: "sql_stmt \<Rightarrow> sql_value list \<Rightarrow> users_table \<Rightarrow> (int \<times> string) + users_table" where
  "run_stmt InsertUsers [n, a] t =
     (let m = max (tbl_seq t) (max_rowid (tbl_rows t)) in
      if n = SqlNull then Inl (SQLITE_CONSTRAINT, ''NOT NULL constraint failed: Users.Name'')
      else if a = SqlNull then Inl (SQLITE_CONSTRAINT, ''NOT NULL constraint failed: Users.Age'')
      else if 9223372036854775807 \<le> m then Inl (SQLITE_FULL, ''database or disk is full'')
      else Inr (t\<lparr>tbl_rows := tbl_rows t @ [\<lparr>row_id = m + 1, row_name = n, row_age = a\<rparr>],
                  tbl_seq := m + 1\<rparr>))"
| "run_stmt UpdateUsers [n, a, i] t =
     (if \<not> list_ex (\<lambda>r. SqlInt (row_id r) = i) (tbl_rows t) then Inr t
      else if n = SqlNull then Inl (SQLITE_CONSTRAINT, ''NOT NULL constraint failed: Users.Name'')
      else if a = SqlNull then Inl (SQLITE_CONSTRAINT, ''NOT NULL constraint failed: Users.Age'')
      else Inr (t\<lparr>tbl_rows :=
                    map (\<lambda>r. if SqlInt (row_id r) = i then r\<lparr>row_name := n, row_age := a\<rparr> else r)
                      (tbl_rows t)\<rparr>))"
| "run_stmt k ps t = Inl (SQLITE_MISUSE, ''bad parameter or other API misuse'')"

definition sqlite3_step :: "handle \<Rightarrow> world \<Rightarrow> int \<times> world" where
  "sqlite3_step st w =
     (case map_of (stmts w) st of
        None \<Rightarrow> (SQLITE_MISUSE, log_call (Step st) SQLITE_MISUSE w)
      | Some s \<Rightarrow>
          (case next_fault w of (f, w1) \<Rightarrow>
             if f \<noteq> NoFault
               then (fault_code f, fail_call (Step st) (fault_code f) (fault_msg f) w1)
             else (case users w1 of
               None \<Rightarrow> (SQLITE_ERROR, fail_call (Step st) SQLITE_ERROR ''no such table: Users'' w1)
             | Some t \<Rightarrow>
                 (case run_stmt (st_kind s) (st_params s) t of
                    Inl (rc, msg) \<Rightarrow> (rc, fail_call (Step st) rc msg w1)
                  | Inr t' \<Rightarrow> (SQLITE_DONE, log_call (Step st) SQLITE_DONE (w1\<lparr>users := Some t'\<rparr>))))))"

text \<open>\<^verbatim>\<open>sqlite3_finalize\<close> releases the statement; on the null pointer it does nothing.\<close>

definition sqlite3_finalize :: "handle \<Rightarrow> world \<Rightarrow> int \<times> world" where
  "sqlite3_finalize st w =
     (SQLITE_OK, log_call (Finalize st) SQLITE_OK (w\<lparr>stmts := filter (\<lambda>(h, s). h \<noteq> st) (stmts w)\<rparr>))"

text \<open>Decimal text of an integer, as the engine renders an integer column for a callback.\<close>

fun dec_nat :: "nat \<Rightarrow> string" where
  "dec_nat n = (if n < 10 then [char_of (48 + n)] else dec_nat (n div 10) @ [char_of (48 + n mod 10)])"

declare dec_nat.simps [simp del]

definition dec :: "int \<Rightarrow> string" where
  "dec i = (if i < 0 then CHR ''-'' # dec_nat (nat (- i)) else dec_nat (nat i))"

fun column_text :: "sql_value \<Rightarrow> string option" where
  "column_text SqlNull = None"
| "column_text (SqlInt i) = Some (dec i)"
| "column_text (SqlText s) = Some s"

text \<open>
  What a row callback receives: \<^verbatim>\<open>argc\<close>, \<^verbatim>\<open>argv\<close> and \<^verbatim>\<open>azColName\<close> as one
  list of \<^verbatim>\<open>argc\<close> pairs of a column name and the column's text (\<open>None\<close>: the null
  pointer).
\<close>

type_synonym row_args = "(string \<times> string option) list"

definition row_args_of :: "user_row \<Rightarrow> row_args" where
  "row_args_of r =
     [(''ID'', Some (dec (row_id r))),
      (''Name'', column_text (row_name r)),
      (''Age'', column_text (row_age r))]"

fun exec_rows :: "(row_args \<Rightarrow> world \<Rightarrow> int \<times> world) \<Rightarrow> user_row list \<Rightarrow> world \<Rightarrow> int \<times> world" where
  "exec_rows cb [] w = (SQLITE_OK, w)"
| "exec_rows cb (r # rs) w =
     (case cb (row_args_of r) w of (rc, w1) \<Rightarrow>
        if rc \<noteq> 0 then (SQLITE_ABORT, w1) else exec_rows cb rs w1)"

text \<open>
  \<^verbatim>\<open>sqlite3_exec\<close> with an optional row callback. The second component of the result is
  the text \<^verbatim>\<open>errmsg\<close> points to, set exactly when the call fails.
\<close>

definition sqlite3_exec ::
  "handle \<Rightarrow> string \<Rightarrow> (row_args \<Rightarrow> world \<Rightarrow> int \<times> world) option \<Rightarrow> world \<Rightarrow> (int \<times> string) \<times> world" where
  "sqlite3_exec db sql cb w =
     (if db \<notin> set (conns w)
        then ((SQLITE_MISUSE, ''bad parameter or other API misuse''),
              log_call (Exec db sql) SQLITE_MISUSE w)
      else (case next_fault w of (f, w1) \<Rightarrow>
        if f \<noteq> NoFault
          then ((fault_code f, fault_msg f), fail_call (Exec db sql) (fault_code f) (fault_msg f) w1)
        else if sql = CREATE_SQL then
          (case users w1 of
             None \<Rightarrow> ((SQLITE_OK, []),
                       log_call (Exec db sql) SQLITE_OK (w1\<lparr>users := Some \<lparr>tbl_rows = [], tbl_seq = 0\<rparr>\<rparr>))
           | Some t \<Rightarrow> ((SQLITE_OK, []), log_call (Exec db sql) SQLITE_OK w1))
        else if sql = SELECT_SQL then
          (case users w1 of
             None \<Rightarrow> ((SQLITE_ERROR, ''no such table: Users''),
                       fail_call (Exec db sql) SQLITE_ERROR ''no such table: Users'' w1)
           | Some t \<Rightarrow>
               (case cb of
                  None \<Rightarrow> ((SQLITE_OK, []), log_call (Exec db sql) SQLITE_OK w1)
                | Some c \<Rightarrow>
                    (case exec_rows c (tbl_rows t) w1 of (rc, w2) \<Rightarrow>
                       if rc \<noteq> SQLITE_OK
                         then ((rc, ''query aborted''), fail_call (Exec db sql) rc ''query aborted'' w2)
                       else ((SQLITE_OK, []), log_call (Exec db sql) SQLITE_OK w2))))
        else ((SQLITE_ERROR, ''SQL logic error''),
              fail_call (Exec db sql) SQLITE_ERROR ''SQL logic error'' w1)))"

section \<open>The program\<close>

definition cout_write :: "string \<Rightarrow> world \<Rightarrow> world" where
  "cout_write s w = w\<lparr>cout := cout w @ s\<rparr>"

subsection \<open>DatabaseConnection\<close>

record DatabaseConnection =
  db :: handle

text \<open>
  The constructor. When it throws, the object was never constructed, so C++ runs no
  destructor for it.
\<close>

definition DatabaseConnection_ctor :: "string \<Rightarrow> world \<Rightarrow> (exn + DatabaseConnection) \<times> world" where
  "DatabaseConnection_ctor dbName w =
     (case sqlite3_open (c_str dbName) w of ((rc, h), w1) \<Rightarrow>
        if rc \<noteq> SQLITE_OK
          then (Inl (runtime_error (''Failed to open database: '' @ sqlite3_errmsg h w1)), w1)
        else (Inr \<lparr>db = h\<rparr>, cout_write (''Database opened successfully!'' @ endl) w1))"

definition DatabaseConnection_dtor :: "DatabaseConnection \<Rightarrow> world \<Rightarrow> world" where
  "DatabaseConnection_dtor c w =
     (case sqlite3_close (db c) w of (rc, w1) \<Rightarrow>
        cout_write (''Database closed successfully!'' @ endl) w1)"

definition DatabaseConnection_get :: "DatabaseConnection \<Rightarrow> handle" where
  "DatabaseConnection_get c = db c"

subsection \<open>validateInput\<close>

definition validateInput :: "string \<Rightarrow> cint \<Rightarrow> exn + unit" where
  "validateInput name age =
     (if sint age < 0 \<or> sint age > 150
        then Inl (invalid_argument ''Age must be between 0 and 150.'')
      else if name = [] \<or> length name > 100
        then Inl (invalid_argument ''Name must be between 1 and 100 characters.'')
      else Inr ())"

subsection \<open>executePreparedSQL\<close>

definition executePreparedSQL :: "handle \<Rightarrow> string \<Rightarrow> string \<Rightarrow> cint \<Rightarrow> world \<Rightarrow> (exn + unit) \<times> world" where
  "executePreparedSQL dbh sql name age w =
     (case sqlite3_prepare_v2 dbh (c_str sql) w of ((rc, st), w1) \<Rightarrow>
        if rc \<noteq> SQLITE_OK
          then (Inl (runtime_error (''Failed to prepare statement: '' @ sqlite3_errmsg dbh w1)), w1)
        else
          case sqlite3_bind_text st 1 (c_str name) w1 of (rc1, w2) \<Rightarrow>
          case sqlite3_bind_int st 2 age w2 of (rc2, w3) \<Rightarrow>
          case sqlite3_step st w3 of (rc3, w4) \<Rightarrow>
            if rc3 \<noteq> SQLITE_DONE
              then (Inl (runtime_error (''Failed to execute statement: '' @ sqlite3_errmsg dbh w4)), w4)
            else
              case sqlite3_finalize st w4 of (rc4, w5) \<Rightarrow>
                (Inr (), cout_write (''Operation completed successfully!'' @ endl) w5))"

subsection \<open>createTable\<close>

definition createTable :: "handle \<Rightarrow> world \<Rightarrow> (exn + unit) \<times> world" where
  "createTable dbh w =
     (case sqlite3_exec dbh CREATE_SQL None w of ((rc, errMsg), w1) \<Rightarrow>
        if rc \<noteq> SQLITE_OK
          then (Inl (runtime_error (''Failed to create table: '' @ errMsg)), w1)
        else (Inr (), cout_write (''Table created successfully!'' @ endl) w1))"

subsection \<open>insertData\<close>

definition insertData :: "DatabaseConnection \<Rightarrow> string \<Rightarrow> cint \<Rightarrow> world \<Rightarrow> (exn + unit) \<times> world" where
  "insertData dbConn name age w =
     (case validateInput name age of
        Inl e \<Rightarrow> (Inl e, w)
      | Inr u \<Rightarrow> executePreparedSQL (DatabaseConnection_get dbConn) INSERT_SQL name age w)"

subsection \<open>readData\<close>

text \<open>
  The row callback prints every column and a separator line and returns 0. A column text
  goes to the stream as a zero-terminated string.
\<close>

fun callback_columns :: "row_args \<Rightarrow> string" where
  "callback_columns [] = []"
| "callback_columns ((col, v) # cs) =
     c_str col @ '': '' @ (case v of None \<Rightarrow> ''NULL'' | Some s \<Rightarrow> c_str s) @ endl @
     callback_columns cs"

definition callback :: "row_args \<Rightarrow> world \<Rightarrow> int \<times> world" where
  "callback args w =
     (0, cout_write (callback_columns args @ ''-----------------------'' @ endl) w)"

definition readData :: "DatabaseConnection \<Rightarrow> world \<Rightarrow> (exn + unit) \<times> world" where
  "readData dbConn w =
     (case sqlite3_exec (DatabaseConnection_get dbConn) SELECT_SQL (Some callback) w of
        ((rc, errMsg), w1) \<Rightarrow>
          if rc \<noteq> SQLITE_OK
            then (Inl (runtime_error (''Failed to read data: '' @ errMsg)), w1)
          else (Inr (), w1))"

subsection \<open>updateData\<close>

definition updateData ::
  "DatabaseConnection \<Rightarrow> cint \<Rightarrow> string \<Rightarrow> cint \<Rightarrow> world \<Rightarrow> (exn + unit) \<times> world" where
  "updateData dbConn ident name age w =
     (case validateInput name age of
        Inl e \<Rightarrow> (Inl e, w)
      | Inr u \<Rightarrow>
          (case sqlite3_prepare_v2 (DatabaseConnection_get dbConn) UPDATE_SQL w of ((rc, st), w1) \<Rightarrow>
             if rc \<noteq> SQLITE_OK
               then (Inl (runtime_error (''Failed to prepare update statement: '' @
                            sqlite3_errmsg (DatabaseConnection_get dbConn) w1)), w1)
             else
               case sqlite3_bind_text st 1 (c_str name) w1 of (rc1, w2) \<Rightarrow>
               case sqlite3_bind_int st 2 age w2 of (rc2, w3) \<Rightarrow>
               case sqlite3_bind_int st 3 ident w3 of (rc3, w4) \<Rightarrow>
               case sqlite3_step st w4 of (rc4, w5) \<Rightarrow>
                 if rc4 \<noteq> SQLITE_DONE
                   then (Inl (runtime_error (''Failed to update data: '' @
                                sqlite3_errmsg (DatabaseConnection_get dbConn) w5)), w5)
                 else
                   case sqlite3_finalize st w5 of (rc5, w6) \<Rightarrow>
                     (Inr (), cout_write (''Record updated successfully!'' @ endl) w6)))"

subsection \<open>main\<close>

text \<open>
  A block that declares a \<^verbatim>\<open>DatabaseConnection\<close> and then runs a body: the destructor
  runs when the block is left, by return or by an exception of the body, and does not run
  when the constructor itself threw.
\<close>

definition with_connection ::
  "string \<Rightarrow> (DatabaseConnection \<Rightarrow> world \<Rightarrow> (exn + unit) \<times> world) \<Rightarrow> world \<Rightarrow> (exn + unit) \<times> world" where
  "with_connection dbName body w =
     (case DatabaseConnection_ctor dbName w of
        (Inl e, w1) \<Rightarrow> (Inl e, w1)
      | (Inr dbConn, w1) \<Rightarrow>
          (case body dbConn w1 of (r, w2) \<Rightarrow> (r, DatabaseConnection_dtor dbConn w2)))"

text \<open>Sequencing of calls that may throw: the first exception ends the sequence.\<close>

definition andThen ::
  "(world \<Rightarrow> (exn + unit) \<times> world) \<Rightarrow> (world \<Rightarrow> (exn + unit) \<times> world) \<Rightarrow> world \<Rightarrow> (exn + unit) \<times> world" where
  "andThen f g w = (case f w of (Inl e, w1) \<Rightarrow> (Inl e, w1) | (Inr u, w1) \<Rightarrow> g w1)"

definition say :: "string \<Rightarrow> world \<Rightarrow> (exn + unit) \<times> world" where
  "say s w = (Inr (), cout_write s w)"

definition main_body :: "DatabaseConnection \<Rightarrow> world \<Rightarrow> (exn + unit) \<times> world" where
  "main_body dbConn =
     andThen (createTable (DatabaseConnection_get dbConn))
    (andThen (insertData dbConn ''Alice'' 25)
    (andThen (insertData dbConn ''Bob'' 30)
    (andThen (say (''Current Records:'' @ endl))
    (andThen (readData dbConn)
    (andThen (say (''Updating Bob's age to 35:'' @ endl))
    (andThen (updateData dbConn 2 ''Bob'' 35)
    (andThen (say (''Records After Update:'' @ endl))
             (readData dbConn))))))))"

definition main :: "world \<Rightarrow> int \<times> world" where
  "main w =
     (case with_connection ''test.db'' main_body w of
        (Inl e, w1) \<Rightarrow> (0, w1\<lparr>cerr := cerr w1 @ ''Error: '' @ what e @ endl\<rparr>)
      | (Inr u, w1) \<Rightarrow> (0, w1))"

text \<open>A world before the program starts: nothing open, given storage and faults.\<close>

definition initial_world :: "env_fault list \<Rightarrow> users_table option \<Rightarrow> world" where
  "initial_world fs t =
     \<lparr>faults = fs, conns = [], stmts = [], fresh = 0, users = t, errmsg = [],
      trace = [], cout = [], cerr = []\<rparr>"

text \<open>
  The environment injects no fault into the next \<open>n\<close> engine calls that could take one.
\<close>

definition quiet :: "nat \<Rightarrow> world \<Rightarrow> bool" where
  "quiet n w = list_all (\<lambda>f. f = NoFault) (take n (faults w))"

text \<open>What the callback prints for one row, and what a scan of the rows prints.\<close>

definition row_output :: "user_row \<Rightarrow> string" where
  "row_output r = callback_columns (row_args_of r) @ ''-----------------------'' @ endl"

definition select_output :: "user_row list \<Rightarrow> string" where
  "select_output rs = concat (map row_output rs)"

text \<open>The SQL texts that a sequence of engine calls handed to the engine.\<close>

fun sql_of_call :: "api_call \<Rightarrow> string list" where
  "sql_of_call (Prepare d z) = [z]"
| "sql_of_call (Exec d z) = [z]"
| "sql_of_call c = []"

definition sql_sent :: "(api_call \<times> int) list \<Rightarrow> string list" where
  "sql_sent tr = concat (map (\<lambda>(c, rc). sql_of_call c) tr)"

text \<open>
  A world in which one connection (handle 1) is open and nothing else has happened yet.
\<close>

definition opened_world :: "env_fault list \<Rightarrow> users_table option \<Rightarrow> world" where
  "opened_world fs t = (initial_world fs t)\<lparr>conns := [1], fresh := 1\<rparr>"

text \<open>The table after the two inserts of \<open>main\<close>.\<close>

definition two_users :: users_table where
  "two_users =
     \<lparr>tbl_rows = [\<lparr>row_id = 1, row_name = SqlText ''Alice'', row_age = SqlInt 25\<rparr>,
                  \<lparr>row_id = 2, row_name = SqlText ''Bob'', row_age = SqlInt 30\<rparr>],
      tbl_seq = 2\<rparr>"

section \<open>Facts about the engine\<close>

lemma c_str_idem: "c_str (c_str s) = c_str s"
  by (simp add: c_str_def)

lemma c_str_no_zero: "CHR 0x00 \<notin> set s \<Longrightarrow> c_str s = s"
  by (auto simp: c_str_def)

lemma fault_code_not_done: "fault_code f \<noteq> 101"
  by (cases f) simp_all

lemma fault_code_ok: "(fault_code f = 0) = (f = NoFault)"
  by (cases f) simp_all

lemma run_stmt_not_done: "run_stmt k ps t = Inl (rc, m) \<Longrightarrow> rc \<noteq> 101"
  by (induction k ps t rule: run_stmt.induct) (auto simp: Let_def split: if_splits)

lemma c_str_INSERT_SQL: "c_str INSERT_SQL = INSERT_SQL"
  by (simp add: c_str_def INSERT_SQL_def)

lemma parse_INSERT_SQL: "parse_sql INSERT_SQL = Some InsertUsers"
  by (simp add: parse_sql_def)

lemma parse_UPDATE_SQL: "parse_sql UPDATE_SQL = Some UpdateUsers"
  by (simp add: parse_sql_def INSERT_SQL_def UPDATE_SQL_def)

lemma next_fault_nil: "faults w = [] \<Longrightarrow> next_fault w = (NoFault, w)"
  by (simp add: next_fault_def)

lemma next_fault_frame:
  "next_fault w = (f, w1) \<Longrightarrow>
     conns w1 = conns w \<and> stmts w1 = stmts w \<and> fresh w1 = fresh w \<and> users w1 = users w \<and>
     errmsg w1 = errmsg w \<and> trace w1 = trace w \<and> cout w1 = cout w \<and> cerr w1 = cerr w \<and>
     faults w1 = tl (faults w)"
  by (auto simp: next_fault_def split: list.splits)

lemma prepare_frame:
  "sqlite3_prepare_v2 d z w = ((rc, st), w1) \<Longrightarrow>
     trace w1 = trace w @ [(Prepare d z, rc)] \<and> users w1 = users w \<and> conns w1 = conns w \<and>
     cout w1 = cout w \<and> cerr w1 = cerr w"
  by (auto simp: sqlite3_prepare_v2_def log_call_def fail_call_def Let_def
      split: if_splits prod.splits option.splits dest!: next_fault_frame)

lemma prepare_ok:
  "sqlite3_prepare_v2 d z w = ((0, st), w1) \<Longrightarrow>
     \<exists>k t. parse_sql z = Some k \<and> users w = Some t \<and> d \<in> set (conns w) \<and>
       stmts w1 = (st, \<lparr>st_kind = k, st_owner = d, st_params = replicate (nparams k) SqlNull\<rparr>) # stmts w"
  by (auto simp: sqlite3_prepare_v2_def log_call_def fail_call_def Let_def fault_code_ok
      split: if_splits prod.splits option.splits dest!: next_fault_frame)

lemma prepare_failed:
  "sqlite3_prepare_v2 d z w = ((rc, st), w1) \<Longrightarrow> rc \<noteq> 0 \<Longrightarrow> st = 0 \<and> stmts w1 = stmts w"
  by (auto simp: sqlite3_prepare_v2_def log_call_def fail_call_def Let_def
      split: if_splits prod.splits option.splits dest!: next_fault_frame)

lemma map_of_set_param:
  "map_of (set_param st i v ss) st =
     map_option (\<lambda>s. s\<lparr>st_params := (st_params s)[i - 1 := v]\<rparr>) (map_of ss st)"
  by (induction ss) (auto simp: set_param_def)

lemma map_fst_set_param: "map fst (set_param st i v ss) = map fst ss"
  by (induction ss) (auto simp: set_param_def)

lemma bind_value_frame:
  "bind_value c st i v w = (rc, w1) \<Longrightarrow>
     trace w1 = trace w @ [(c, rc)] \<and> users w1 = users w \<and> conns w1 = conns w \<and>
     cout w1 = cout w \<and> cerr w1 = cerr w \<and> map fst (stmts w1) = map fst (stmts w)"
  by (auto simp: bind_value_def log_call_def fail_call_def map_fst_set_param
      split: if_splits prod.splits option.splits dest!: next_fault_frame)

lemma bind_value_param:
  "bind_value c st i v w = (rc, w1) \<Longrightarrow> map_of (stmts w) st = Some s \<Longrightarrow>
     map_of (stmts w1) st = Some (if rc = 0 then s\<lparr>st_params := (st_params s)[i - 1 := v]\<rparr> else s)"
  by (auto simp: bind_value_def log_call_def fail_call_def map_of_set_param fault_code_ok
      split: if_splits prod.splits option.splits dest!: next_fault_frame)

lemma step_frame:
  "sqlite3_step st w = (rc, w1) \<Longrightarrow>
     trace w1 = trace w @ [(Step st, rc)] \<and> conns w1 = conns w \<and> stmts w1 = stmts w \<and>
     cout w1 = cout w \<and> cerr w1 = cerr w"
  by (auto simp: sqlite3_step_def log_call_def fail_call_def
      split: if_splits prod.splits option.splits sum.splits dest!: next_fault_frame)

lemma step_done:
  "sqlite3_step st w = (101, w1) \<Longrightarrow>
     \<exists>s t t'. map_of (stmts w) st = Some s \<and> users w = Some t \<and>
       run_stmt (st_kind s) (st_params s) t = Inr t' \<and> users w1 = Some t'"
  by (auto simp: sqlite3_step_def log_call_def fail_call_def fault_code_not_done
      split: if_splits prod.splits option.splits sum.splits
      dest!: next_fault_frame dest: run_stmt_not_done)

lemma step_not_done:
  "sqlite3_step st w = (rc, w1) \<Longrightarrow> rc \<noteq> 101 \<Longrightarrow> users w1 = users w"
  by (auto simp: sqlite3_step_def log_call_def fail_call_def
      split: if_splits prod.splits option.splits sum.splits dest!: next_fault_frame)

lemma finalize_frame:
  "sqlite3_finalize st w = (rc, w1) \<Longrightarrow>
     rc = 0 \<and> trace w1 = trace w @ [(Finalize st, 0)] \<and> users w1 = users w \<and> conns w1 = conns w \<and>
     cout w1 = cout w \<and> cerr w1 = cerr w \<and> stmts w1 = filter (\<lambda>(h, s). h \<noteq> st) (stmts w)"
  by (auto simp: sqlite3_finalize_def log_call_def)

lemma list_all_take_Suc: "list_all P (take (Suc n) xs) \<Longrightarrow> list_all P (take n xs)"
proof (induction n arbitrary: xs)
  case 0
  then show ?case by simp
next
  case (Suc n)
  then show ?case by (cases xs) auto
qed

lemma quiet_mono: "quiet (Suc n) w \<Longrightarrow> quiet n w"
  unfolding quiet_def by (rule list_all_take_Suc)

lemma next_fault_quiet:
  "next_fault w = (f, w1) \<Longrightarrow> quiet (Suc n) w \<Longrightarrow>
     f = NoFault \<and> quiet n w1 \<and>
     conns w1 = conns w \<and> stmts w1 = stmts w \<and> fresh w1 = fresh w \<and> users w1 = users w \<and>
     errmsg w1 = errmsg w \<and> trace w1 = trace w \<and> cout w1 = cout w \<and> cerr w1 = cerr w"
  by (cases "faults w") (auto simp: quiet_def next_fault_def)

lemma prepare_quiet:
  "sqlite3_prepare_v2 d z w = ((rc, st), w1) \<Longrightarrow> quiet (Suc n) w \<Longrightarrow> d \<in> set (conns w) \<Longrightarrow>
     parse_sql z = Some k \<Longrightarrow> users w = Some t \<Longrightarrow> rc = 0 \<and> quiet n w1"
  by (auto simp: sqlite3_prepare_v2_def log_call_def fail_call_def Let_def quiet_def
      split: if_splits prod.splits option.splits dest!: next_fault_quiet [unfolded quiet_def])

lemma bind_value_quiet:
  "bind_value c st i v w = (rc, w1) \<Longrightarrow> quiet (Suc n) w \<Longrightarrow> map_of (stmts w) st = Some s \<Longrightarrow>
     1 \<le> i \<Longrightarrow> i \<le> length (st_params s) \<Longrightarrow> rc = 0 \<and> quiet n w1"
  by (auto simp: bind_value_def log_call_def fail_call_def quiet_def
      split: if_splits prod.splits option.splits dest!: next_fault_quiet [unfolded quiet_def])

lemma step_quiet:
  "sqlite3_step st w = (rc, w1) \<Longrightarrow> quiet (Suc n) w \<Longrightarrow> map_of (stmts w) st = Some s \<Longrightarrow>
     users w = Some t \<Longrightarrow> run_stmt (st_kind s) (st_params s) t = Inr t' \<Longrightarrow>
     rc = 101 \<and> quiet n w1 \<and> users w1 = Some t'"
  by (auto simp: sqlite3_step_def log_call_def fail_call_def quiet_def
      split: if_splits prod.splits option.splits sum.splits
      dest!: next_fault_quiet [unfolded quiet_def])

section \<open>Facts about the program\<close>

lemma executePreparedSQL_unfold:
  assumes "executePreparedSQL d sql name age w = (r, w')"
  shows "\<exists>rc st w1. sqlite3_prepare_v2 d (c_str sql) w = ((rc, st), w1) \<and>
     (if rc \<noteq> 0
        then r = Inl (runtime_error (''Failed to prepare statement: '' @ sqlite3_errmsg d w1)) \<and> w' = w1
      else \<exists>rc1 w2 rc2 w3 rc3 w4.
        sqlite3_bind_text st 1 (c_str name) w1 = (rc1, w2) \<and>
        sqlite3_bind_int st 2 age w2 = (rc2, w3) \<and>
        sqlite3_step st w3 = (rc3, w4) \<and>
        (if rc3 \<noteq> 101
           then r = Inl (runtime_error (''Failed to execute statement: '' @ sqlite3_errmsg d w4)) \<and>
                w' = w4
         else r = Inr () \<and>
              w' = cout_write (''Operation completed successfully!'' @ endl)
                     (snd (sqlite3_finalize st w4))))"
  using assms by (auto simp: executePreparedSQL_def split: prod.splits if_splits)

lemma updateData_unfold:
  assumes "validateInput name age = Inr ()"
    and "updateData c ident name age w = (r, w')"
  shows "\<exists>rc st w1. sqlite3_prepare_v2 (db c) UPDATE_SQL w = ((rc, st), w1) \<and>
     (if rc \<noteq> 0
        then r = Inl (runtime_error (''Failed to prepare update statement: '' @ sqlite3_errmsg (db c) w1)) \<and>
             w' = w1
      else \<exists>rc1 w2 rc2 w3 rc3 w4 rc4 w5.
        sqlite3_bind_text st 1 (c_str name) w1 = (rc1, w2) \<and>
        sqlite3_bind_int st 2 age w2 = (rc2, w3) \<and>
        sqlite3_bind_int st 3 ident w3 = (rc3, w4) \<and>
        sqlite3_step st w4 = (rc4, w5) \<and>
        (if rc4 \<noteq> 101
           then r = Inl (runtime_error (''Failed to update data: '' @ sqlite3_errmsg (db c) w5)) \<and>
                w' = w5
         else r = Inr () \<and>
              w' = cout_write (''Record updated successfully!'' @ endl)
                     (snd (sqlite3_finalize st w5))))"
  using assms
  by (auto simp: updateData_def DatabaseConnection_get_def split: prod.splits if_splits)

lemma cout_write_frame:
  "trace (cout_write s w) = trace w \<and> users (cout_write s w) = users w \<and>
   conns (cout_write s w) = conns w \<and> stmts (cout_write s w) = stmts w \<and>
   faults (cout_write s w) = faults w \<and> cout (cout_write s w) = cout w @ s"
  by (simp add: cout_write_def)

lemma bind_text_frame:
  "sqlite3_bind_text st i z w = (rc, w1) \<Longrightarrow>
     trace w1 = trace w @ [(BindText st i z, rc)] \<and> users w1 = users w \<and> conns w1 = conns w \<and>
     cout w1 = cout w"
  by (auto simp: sqlite3_bind_text_def dest: bind_value_frame)

lemma bind_int_frame:
  "sqlite3_bind_int st i n w = (rc, w1) \<Longrightarrow>
     trace w1 = trace w @ [(BindInt st i (sint n), rc)] \<and> users w1 = users w \<and>
     conns w1 = conns w \<and> cout w1 = cout w"
  by (auto simp: sqlite3_bind_int_def dest: bind_value_frame)

lemma executePreparedSQL_trace:
  assumes p: "sqlite3_prepare_v2 d (c_str sql) w = ((0, st), w1)"
    and run: "executePreparedSQL d sql name age w = (r, w')"
  shows "\<exists>rc1 rc2 rc3.
     trace w' = trace w @
       [(Prepare d (c_str sql), 0), (BindText st 1 (c_str name), rc1),
        (BindInt st 2 (sint age), rc2), (Step st, rc3)] @
       (if rc3 = 101 then [(Finalize st, 0)] else []) \<and>
     (r = Inr ()) = (rc3 = 101) \<and>
     (rc3 \<noteq> 101 \<longrightarrow>
        r = Inl (runtime_error (''Failed to execute statement: '' @ sqlite3_errmsg d w')))"
proof -
  from executePreparedSQL_unfold [OF run] p obtain rc1 w2 rc2 w3 rc3 w4 where
    b1: "sqlite3_bind_text st 1 (c_str name) w1 = (rc1, w2)" and
    b2: "sqlite3_bind_int st 2 age w2 = (rc2, w3)" and
    s: "sqlite3_step st w3 = (rc3, w4)" and
    fin: "if rc3 \<noteq> 101
           then r = Inl (runtime_error (''Failed to execute statement: '' @ sqlite3_errmsg d w4)) \<and>
                w' = w4
         else r = Inr () \<and>
              w' = cout_write (''Operation completed successfully!'' @ endl)
                     (snd (sqlite3_finalize st w4))"
    by auto
  have t1: "trace w1 = trace w @ [(Prepare d (c_str sql), 0)]"
    using prepare_frame [OF p] by simp
  have t2: "trace w2 = trace w1 @ [(BindText st 1 (c_str name), rc1)]"
    using bind_text_frame [OF b1] by simp
  have t3: "trace w3 = trace w2 @ [(BindInt st 2 (sint age), rc2)]"
    using bind_int_frame [OF b2] by simp
  have t4: "trace w4 = trace w3 @ [(Step st, rc3)]"
    using step_frame [OF s] by simp
  have t5: "trace (snd (sqlite3_finalize st w4)) = trace w4 @ [(Finalize st, 0)]"
    by (simp add: sqlite3_finalize_def log_call_def)
  show ?thesis
  proof (cases "rc3 = 101")
    case True
    with fin t1 t2 t3 t4 t5 show ?thesis
      by (intro exI [of _ rc1] exI [of _ rc2] exI [of _ rc3]) (simp add: cout_write_frame)
  next
    case False
    with fin t1 t2 t3 t4 show ?thesis
      by (intro exI [of _ rc1] exI [of _ rc2] exI [of _ rc3]) simp
  qed
qed

lemma updateData_trace:
  assumes v: "validateInput name age = Inr ()"
    and p: "sqlite3_prepare_v2 (db c) UPDATE_SQL w = ((0, st), w1)"
    and run: "updateData c ident name age w = (r, w')"
  shows "\<exists>rc1 rc2 rc3 rc4.
     trace w' = trace w @
       [(Prepare (db c) UPDATE_SQL, 0), (BindText st 1 (c_str name), rc1),
        (BindInt st 2 (sint age), rc2), (BindInt st 3 (sint ident), rc3), (Step st, rc4)] @
       (if rc4 = 101 then [(Finalize st, 0)] else []) \<and>
     (r = Inr ()) = (rc4 = 101) \<and>
     (rc4 \<noteq> 101 \<longrightarrow>
        r = Inl (runtime_error (''Failed to update data: '' @ sqlite3_errmsg (db c) w')))"
proof -
  from updateData_unfold [OF v run] p obtain rc1 w2 rc2 w3 rc3 w4 rc4 w5 where
    b1: "sqlite3_bind_text st 1 (c_str name) w1 = (rc1, w2)" and
    b2: "sqlite3_bind_int st 2 age w2 = (rc2, w3)" and
    b3: "sqlite3_bind_int st 3 ident w3 = (rc3, w4)" and
    s: "sqlite3_step st w4 = (rc4, w5)" and
    fin: "if rc4 \<noteq> 101
           then r = Inl (runtime_error (''Failed to update data: '' @ sqlite3_errmsg (db c) w5)) \<and>
                w' = w5
         else r = Inr () \<and>
              w' = cout_write (''Record updated successfully!'' @ endl)
                     (snd (sqlite3_finalize st w5))"
    by auto
  have t1: "trace w1 = trace w @ [(Prepare (db c) UPDATE_SQL, 0)]"
    using prepare_frame [OF p] by simp
  have t2: "trace w2 = trace w1 @ [(BindText st 1 (c_str name), rc1)]"
    using bind_text_frame [OF b1] by simp
  have t3: "trace w3 = trace w2 @ [(BindInt st 2 (sint age), rc2)]"
    using bind_int_frame [OF b2] by simp
  have t4: "trace w4 = trace w3 @ [(BindInt st 3 (sint ident), rc3)]"
    using bind_int_frame [OF b3] by simp
  have t5: "trace w5 = trace w4 @ [(Step st, rc4)]"
    using step_frame [OF s] by simp
  have t6: "trace (snd (sqlite3_finalize st w5)) = trace w5 @ [(Finalize st, 0)]"
    by (simp add: sqlite3_finalize_def log_call_def)
  show ?thesis
  proof (cases "rc4 = 101")
    case True
    with fin t1 t2 t3 t4 t5 t6 show ?thesis
      by (intro exI [of _ rc1] exI [of _ rc2] exI [of _ rc3] exI [of _ rc4])
         (simp add: cout_write_frame)
  next
    case False
    with fin t1 t2 t3 t4 t5 show ?thesis
      by (intro exI [of _ rc1] exI [of _ rc2] exI [of _ rc3] exI [of _ rc4]) simp
  qed
qed

lemma map_no_match: "\<not> list_ex P rs \<Longrightarrow> map (\<lambda>r. if P r then f r else r) rs = rs"
  by (induction rs) auto

lemma run_update:
  assumes "run_stmt UpdateUsers [n, a, i] t = Inr t'"
  shows "t' = t\<lparr>tbl_rows :=
                 map (\<lambda>r. if SqlInt (row_id r) = i then r\<lparr>row_name := n, row_age := a\<rparr> else r)
                   (tbl_rows t)\<rparr> \<and>
         (list_ex (\<lambda>r. SqlInt (row_id r) = i) (tbl_rows t) \<longrightarrow> n \<noteq> SqlNull \<and> a \<noteq> SqlNull)"
  using assms by (auto simp: map_no_match split: if_splits)

lemma update_params:
  assumes p: "sqlite3_prepare_v2 d UPDATE_SQL w = ((0, st), w1)"
    and b1: "sqlite3_bind_text st 1 z w1 = (rc1, w2)"
    and b2: "sqlite3_bind_int st 2 a w2 = (rc2, w3)"
    and b3: "sqlite3_bind_int st 3 i w3 = (rc3, w4)"
  shows "map_of (stmts w4) st =
     Some \<lparr>st_kind = UpdateUsers, st_owner = d,
           st_params = [if rc1 = 0 then SqlText z else SqlNull,
                        if rc2 = 0 then SqlInt (sint a) else SqlNull,
                        if rc3 = 0 then SqlInt (sint i) else SqlNull]\<rparr>"
proof -
  from prepare_ok [OF p] have
    m1: "map_of (stmts w1) st =
           Some \<lparr>st_kind = UpdateUsers, st_owner = d, st_params = [SqlNull, SqlNull, SqlNull]\<rparr>"
    by (auto simp: parse_UPDATE_SQL numeral_3_eq_3)
  from bind_value_param [OF b1 [unfolded sqlite3_bind_text_def] m1] have
    m2: "map_of (stmts w2) st =
           Some \<lparr>st_kind = UpdateUsers, st_owner = d,
                 st_params = [if rc1 = 0 then SqlText z else SqlNull, SqlNull, SqlNull]\<rparr>"
    by simp
  from bind_value_param [OF b2 [unfolded sqlite3_bind_int_def] m2] have
    m3: "map_of (stmts w3) st =
           Some \<lparr>st_kind = UpdateUsers, st_owner = d,
                 st_params = [if rc1 = 0 then SqlText z else SqlNull,
                              if rc2 = 0 then SqlInt (sint a) else SqlNull, SqlNull]\<rparr>"
    by simp
  from bind_value_param [OF b3 [unfolded sqlite3_bind_int_def] m3] show ?thesis
    by (simp add: numeral_2_eq_2)
qed

lemma insert_params:
  assumes p: "sqlite3_prepare_v2 d INSERT_SQL w = ((0, st), w1)"
    and b1: "sqlite3_bind_text st 1 z w1 = (rc1, w2)"
    and b2: "sqlite3_bind_int st 2 a w2 = (rc2, w3)"
  shows "map_of (stmts w3) st =
     Some \<lparr>st_kind = InsertUsers, st_owner = d,
           st_params = [if rc1 = 0 then SqlText z else SqlNull,
                        if rc2 = 0 then SqlInt (sint a) else SqlNull]\<rparr>"
proof -
  from prepare_ok [OF p] have
    m1: "map_of (stmts w1) st =
           Some \<lparr>st_kind = InsertUsers, st_owner = d, st_params = [SqlNull, SqlNull]\<rparr>"
    by (auto simp: parse_INSERT_SQL numeral_2_eq_2)
  from bind_value_param [OF b1 [unfolded sqlite3_bind_text_def] m1] have
    m2: "map_of (stmts w2) st =
           Some \<lparr>st_kind = InsertUsers, st_owner = d,
                 st_params = [if rc1 = 0 then SqlText z else SqlNull, SqlNull]\<rparr>"
    by simp
  from bind_value_param [OF b2 [unfolded sqlite3_bind_int_def] m2] show ?thesis
    by simp
qed

text \<open>What a successful update has done to the table, whatever the binds returned.\<close>

lemma updateData_ok:
  assumes run: "updateData c ident name age w = (Inr (), w')"
  shows "\<exists>t n a i. users w = Some t \<and>
     users w' = Some (t\<lparr>tbl_rows :=
        map (\<lambda>r. if SqlInt (row_id r) = i then r\<lparr>row_name := n, row_age := a\<rparr> else r)
          (tbl_rows t)\<rparr>) \<and>
     (i = SqlNull \<or> i = SqlInt (sint ident)) \<and>
     (list_ex (\<lambda>r. SqlInt (row_id r) = i) (tbl_rows t) \<longrightarrow>
        n = SqlText (c_str name) \<and> a = SqlInt (sint age))"
proof -
  have v: "validateInput name age = Inr ()"
    using run by (auto simp: updateData_def split: sum.splits)
  from updateData_unfold [OF v run] obtain st w1 rc1 w2 rc2 w3 rc3 w4 w5 where
    p: "sqlite3_prepare_v2 (db c) UPDATE_SQL w = ((0, st), w1)" and
    b1: "sqlite3_bind_text st 1 (c_str name) w1 = (rc1, w2)" and
    b2: "sqlite3_bind_int st 2 age w2 = (rc2, w3)" and
    b3: "sqlite3_bind_int st 3 ident w3 = (rc3, w4)" and
    s: "sqlite3_step st w4 = (101, w5)" and
    w': "w' = cout_write (''Record updated successfully!'' @ endl) (snd (sqlite3_finalize st w5))"
    by (auto split: if_splits)
  let ?n = "if rc1 = 0 then SqlText (c_str name) else SqlNull"
  let ?a = "if rc2 = 0 then SqlInt (sint age) else SqlNull"
  let ?i = "if rc3 = 0 then SqlInt (sint ident) else SqlNull"
  have u4: "users w4 = users w"
    using prepare_frame [OF p] bind_text_frame [OF b1] bind_int_frame [OF b2]
      bind_int_frame [OF b3] by simp
  from step_done [OF s] update_params [OF p b1 b2 b3] u4 obtain t t' where
    t: "users w = Some t" and
    r: "run_stmt UpdateUsers [?n, ?a, ?i] t = Inr t'" and
    u5: "users w5 = Some t'"
    by auto
  have u': "users w' = users w5"
    by (simp add: w' cout_write_frame sqlite3_finalize_def log_call_def)
  from run_update [OF r] have
    t': "t' = t\<lparr>tbl_rows :=
                 map (\<lambda>r. if SqlInt (row_id r) = ?i then r\<lparr>row_name := ?n, row_age := ?a\<rparr> else r)
                   (tbl_rows t)\<rparr>" and
    nn: "list_ex (\<lambda>r. SqlInt (row_id r) = ?i) (tbl_rows t) \<longrightarrow> ?n \<noteq> SqlNull \<and> ?a \<noteq> SqlNull"
    by simp_all
  have 1: "users w' = Some (t\<lparr>tbl_rows :=
        map (\<lambda>r. if SqlInt (row_id r) = ?i then r\<lparr>row_name := ?n, row_age := ?a\<rparr> else r)
          (tbl_rows t)\<rparr>)"
    using u' u5 t' by simp
  have 2: "?i = SqlNull \<or> ?i = SqlInt (sint ident)" by simp
  have 3: "list_ex (\<lambda>r. SqlInt (row_id r) = ?i) (tbl_rows t) \<longrightarrow>
        ?n = SqlText (c_str name) \<and> ?a = SqlInt (sint age)"
    using nn by (auto split: if_splits)
  show ?thesis
    by (rule exI [of _ t], rule exI [of _ ?n], rule exI [of _ ?a], rule exI [of _ ?i])
       (use t 1 2 3 in blast)
qed

text \<open>An update that the environment leaves alone succeeds, and this is what it does.\<close>

lemma updateData_quiet:
  assumes v: "validateInput name age = Inr ()"
    and live: "db c \<in> set (conns w)"
    and t: "users w = Some t"
    and q: "quiet 5 w"
    and run: "updateData c ident name age w = (r, w')"
  shows "r = Inr () \<and>
     users w' = Some (t\<lparr>tbl_rows :=
        map (\<lambda>r. if row_id r = sint ident
                  then r\<lparr>row_name := SqlText (c_str name), row_age := SqlInt (sint age)\<rparr> else r)
          (tbl_rows t)\<rparr>)"
proof -
  have q5: "quiet (Suc (Suc (Suc (Suc (Suc 0))))) w"
    using q by (simp add: eval_nat_numeral)
  obtain rc st w1 where p: "sqlite3_prepare_v2 (db c) UPDATE_SQL w = ((rc, st), w1)"
    by (metis prod.exhaust)
  from prepare_quiet [OF p q5 live parse_UPDATE_SQL t] have
    rc: "rc = 0" and q4: "quiet (Suc (Suc (Suc (Suc 0)))) w1"
    by simp_all
  note p0 = p [unfolded rc]
  from updateData_unfold [OF v run] p0 obtain rc1 w2 rc2 w3 rc3 w4 rc4 w5 where
    b1: "sqlite3_bind_text st 1 (c_str name) w1 = (rc1, w2)" and
    b2: "sqlite3_bind_int st 2 age w2 = (rc2, w3)" and
    b3: "sqlite3_bind_int st 3 ident w3 = (rc3, w4)" and
    s: "sqlite3_step st w4 = (rc4, w5)" and
    fin: "if rc4 \<noteq> 101
           then r = Inl (runtime_error (''Failed to update data: '' @ sqlite3_errmsg (db c) w5)) \<and>
                w' = w5
         else r = Inr () \<and>
              w' = cout_write (''Record updated successfully!'' @ endl)
                     (snd (sqlite3_finalize st w5))"
    by auto
  from prepare_ok [OF p0] have
    m1: "map_of (stmts w1) st =
           Some \<lparr>st_kind = UpdateUsers, st_owner = db c, st_params = [SqlNull, SqlNull, SqlNull]\<rparr>"
    by (auto simp: parse_UPDATE_SQL numeral_3_eq_3)
  from bind_value_quiet [OF b1 [unfolded sqlite3_bind_text_def] q4 m1] have
    rc1: "rc1 = 0" and q3: "quiet (Suc (Suc (Suc 0))) w2"
    by simp_all
  from bind_value_param [OF b1 [unfolded sqlite3_bind_text_def] m1] rc1 have
    m2: "map_of (stmts w2) st =
           Some \<lparr>st_kind = UpdateUsers, st_owner = db c,
                 st_params = [SqlText (c_str name), SqlNull, SqlNull]\<rparr>"
    by simp
  from bind_value_quiet [OF b2 [unfolded sqlite3_bind_int_def] q3 m2] have
    rc2: "rc2 = 0" and q2: "quiet (Suc (Suc 0)) w3"
    by simp_all
  from bind_value_param [OF b2 [unfolded sqlite3_bind_int_def] m2] rc2 have
    m3: "map_of (stmts w3) st =
           Some \<lparr>st_kind = UpdateUsers, st_owner = db c,
                 st_params = [SqlText (c_str name), SqlInt (sint age), SqlNull]\<rparr>"
    by simp
  from bind_value_quiet [OF b3 [unfolded sqlite3_bind_int_def] q2 m3] have
    rc3: "rc3 = 0" and q1: "quiet (Suc 0) w4"
    by simp_all
  from bind_value_param [OF b3 [unfolded sqlite3_bind_int_def] m3] rc3 have
    m4: "map_of (stmts w4) st =
           Some \<lparr>st_kind = UpdateUsers, st_owner = db c,
                 st_params = [SqlText (c_str name), SqlInt (sint age), SqlInt (sint ident)]\<rparr>"
    by (simp add: numeral_2_eq_2)
  have u4: "users w4 = Some t"
    using prepare_frame [OF p] bind_text_frame [OF b1] bind_int_frame [OF b2]
      bind_int_frame [OF b3] t by simp
  let ?t' = "t\<lparr>tbl_rows :=
        map (\<lambda>r. if row_id r = sint ident
                  then r\<lparr>row_name := SqlText (c_str name), row_age := SqlInt (sint age)\<rparr> else r)
          (tbl_rows t)\<rparr>"
  have r: "run_stmt UpdateUsers [SqlText (c_str name), SqlInt (sint age), SqlInt (sint ident)] t =
             Inr ?t'"
    by (simp add: map_no_match)
  from step_quiet [OF s q1 m4 u4] r have rc4: "rc4 = 101" and u5: "users w5 = Some ?t'"
    by simp_all
  from fin rc4 have "r = Inr ()" and
    "w' = cout_write (''Record updated successfully!'' @ endl) (snd (sqlite3_finalize st w5))"
    by simp_all
  then show ?thesis
    using u5 by (simp add: cout_write_frame sqlite3_finalize_def log_call_def)
qed

lemma updateData_failed:
  assumes run: "updateData c ident name age w = (Inl e, w')"
  shows "users w' = users w"
proof (cases "validateInput name age")
  case (Inl e')
  with run show ?thesis by (simp add: updateData_def)
next
  case (Inr u)
  then have v: "validateInput name age = Inr ()" by simp
  from updateData_unfold [OF v run] obtain rc st w1 where
    p: "sqlite3_prepare_v2 (db c) UPDATE_SQL w = ((rc, st), w1)" and
    rest: "if rc \<noteq> 0 then w' = w1
      else \<exists>rc1 w2 rc2 w3 rc3 w4 rc4 w5.
        sqlite3_bind_text st 1 (c_str name) w1 = (rc1, w2) \<and>
        sqlite3_bind_int st 2 age w2 = (rc2, w3) \<and>
        sqlite3_bind_int st 3 ident w3 = (rc3, w4) \<and>
        sqlite3_step st w4 = (rc4, w5) \<and> rc4 \<noteq> 101 \<and> w' = w5"
    by (auto split: if_splits)
  show ?thesis
  proof (cases "rc = 0")
    case False
    with rest prepare_frame [OF p] show ?thesis by simp
  next
    case True
    with rest obtain rc1 w2 rc2 w3 rc3 w4 rc4 w5 where
      b1: "sqlite3_bind_text st 1 (c_str name) w1 = (rc1, w2)" and
      b2: "sqlite3_bind_int st 2 age w2 = (rc2, w3)" and
      b3: "sqlite3_bind_int st 3 ident w3 = (rc3, w4)" and
      s: "sqlite3_step st w4 = (rc4, w5)" and nd: "rc4 \<noteq> 101" and w': "w' = w5"
      by auto
    show ?thesis
      using prepare_frame [OF p] bind_text_frame [OF b1] bind_int_frame [OF b2]
        bind_int_frame [OF b3] step_not_done [OF s nd] w' by simp
  qed
qed

lemma exec_create:
  assumes "sqlite3_exec d CREATE_SQL None w = ((rc, msg), w1)"
  shows "conns w1 = conns w \<and> stmts w1 = stmts w \<and> cout w1 = cout w \<and>
     trace w1 = trace w @ [(Exec d CREATE_SQL, rc)] \<and>
     (users w \<noteq> None \<longrightarrow> users w1 = users w) \<and>
     (rc = 0 \<longrightarrow> users w1 \<noteq> None \<and> d \<in> set (conns w) \<and>
        (users w = None \<longrightarrow> users w1 = Some \<lparr>tbl_rows = [], tbl_seq = 0\<rparr>)) \<and>
     (rc \<noteq> 0 \<and> d \<in> set (conns w) \<longrightarrow> (\<exists>f. f \<noteq> NoFault \<and> msg = fault_msg f)) \<and>
     (d \<in> set (conns w) \<and> quiet 1 w \<longrightarrow> rc = 0) \<and>
     (\<forall>n. quiet (Suc n) w \<longrightarrow> quiet n w1)"
proof -
  obtain f w0 where nf: "next_fault w = (f, w0)" by (metis prod.exhaust)
  have q: "\<forall>n. quiet (Suc n) w \<longrightarrow> f = NoFault \<and> quiet n w0"
    using next_fault_quiet [OF nf] by blast
  have q1: "quiet 1 w \<longrightarrow> f = NoFault"
    using q by (metis One_nat_def)
  show ?thesis
  proof (cases "d \<in> set (conns w)")
    case False
    with assms show ?thesis
      by (auto simp: sqlite3_exec_def log_call_def quiet_def dest: list_all_take_Suc)
  next
    case True
    with assms nf q q1 next_fault_frame [OF nf] show ?thesis
      by (auto simp: sqlite3_exec_def log_call_def fail_call_def fault_code_ok quiet_def
          split: if_splits option.splits)
  qed
qed

lemma createTable_facts:
  assumes "createTable d w = (r, w1)"
  shows "conns w1 = conns w \<and> stmts w1 = stmts w \<and>
     (users w \<noteq> None \<longrightarrow> users w1 = users w) \<and>
     (r = Inr () \<longrightarrow> users w1 \<noteq> None \<and> d \<in> set (conns w) \<and>
        (users w = None \<longrightarrow> users w1 = Some \<lparr>tbl_rows = [], tbl_seq = 0\<rparr>)) \<and>
     (r \<noteq> Inr () \<and> d \<in> set (conns w) \<longrightarrow>
        (\<exists>f. f \<noteq> NoFault \<and> r = Inl (runtime_error (''Failed to create table: '' @ fault_msg f)))) \<and>
     (d \<in> set (conns w) \<and> quiet 1 w \<longrightarrow> r = Inr ()) \<and>
     (\<forall>n. quiet (Suc n) w \<longrightarrow> quiet n w1)"
proof -
  obtain rc msg w0 where e: "sqlite3_exec d CREATE_SQL None w = ((rc, msg), w0)"
    by (metis prod.exhaust)
  with assms have r: "r = (if rc \<noteq> 0 then Inl (runtime_error (''Failed to create table: '' @ msg))
                          else Inr ())"
    and w1: "w1 = (if rc \<noteq> 0 then w0 else cout_write (''Table created successfully!'' @ endl) w0)"
    by (auto simp: createTable_def split: if_splits)
  have f: "conns w1 = conns w0 \<and> stmts w1 = stmts w0 \<and> users w1 = users w0 \<and>
           faults w1 = faults w0"
    by (simp add: w1 cout_write_def)
  then have q: "\<And>n. quiet n w1 = quiet n w0"
    by (simp add: quiet_def)
  from exec_create [OF e] f q r show ?thesis
    by (auto split: if_splits)
qed

lemma max_rowid_ge: "r \<in> set rs \<Longrightarrow> row_id r \<le> max_rowid rs"
  by (induction rs) (auto simp: max_rowid_def)

lemma run_insert:
  assumes "run_stmt InsertUsers [n, a] t = Inr t'"
  shows "n \<noteq> SqlNull \<and> a \<noteq> SqlNull \<and>
     t' = \<lparr>tbl_rows = tbl_rows t @
             [\<lparr>row_id = max (tbl_seq t) (max_rowid (tbl_rows t)) + 1, row_name = n, row_age = a\<rparr>],
           tbl_seq = max (tbl_seq t) (max_rowid (tbl_rows t)) + 1\<rparr>"
  using assms by (auto simp: Let_def split: if_splits)

lemma insertData_unfold:
  assumes v: "validateInput name age = Inr ()"
    and run: "insertData c name age w = (r, w')"
  shows "executePreparedSQL (db c) INSERT_SQL name age w = (r, w')"
  using assms by (simp add: insertData_def DatabaseConnection_get_def)

text \<open>What a successful insert has done to the table, whatever the binds returned.\<close>

lemma insertData_ok:
  assumes run: "insertData c name age w = (Inr (), w')"
  shows "\<exists>t. users w = Some t \<and> db c \<in> set (conns w') \<and>
     users w' =
       Some \<lparr>tbl_rows = tbl_rows t @
               [\<lparr>row_id = max (tbl_seq t) (max_rowid (tbl_rows t)) + 1,
                 row_name = SqlText (c_str name), row_age = SqlInt (sint age)\<rparr>],
             tbl_seq = max (tbl_seq t) (max_rowid (tbl_rows t)) + 1\<rparr>"
proof -
  have v: "validateInput name age = Inr ()"
    using run by (auto simp: insertData_def split: sum.splits)
  from executePreparedSQL_unfold [OF insertData_unfold [OF v run]]
  obtain st w1 rc1 w2 rc2 w3 w4 where
    p: "sqlite3_prepare_v2 (db c) INSERT_SQL w = ((0, st), w1)" and
    b1: "sqlite3_bind_text st 1 (c_str name) w1 = (rc1, w2)" and
    b2: "sqlite3_bind_int st 2 age w2 = (rc2, w3)" and
    s: "sqlite3_step st w3 = (101, w4)" and
    w': "w' = cout_write (''Operation completed successfully!'' @ endl)
                (snd (sqlite3_finalize st w4))"
    by (auto simp: c_str_INSERT_SQL split: if_splits)
  let ?n = "if rc1 = 0 then SqlText (c_str name) else SqlNull"
  let ?a = "if rc2 = 0 then SqlInt (sint age) else SqlNull"
  have u3: "users w3 = users w" and c3: "conns w3 = conns w"
    using prepare_frame [OF p] bind_text_frame [OF b1] bind_int_frame [OF b2] by simp_all
  from step_done [OF s] insert_params [OF p b1 b2] u3 obtain t t' where
    t: "users w = Some t" and
    r: "run_stmt InsertUsers [?n, ?a] t = Inr t'" and
    u4: "users w4 = Some t'"
    by auto
  have u': "users w' = users w4" and c': "conns w' = conns w4"
    by (simp_all add: w' cout_write_frame sqlite3_finalize_def log_call_def)
  from run_insert [OF r] have
    "?n = SqlText (c_str name)" and "?a = SqlInt (sint age)" and
    "t' = \<lparr>tbl_rows = tbl_rows t @
             [\<lparr>row_id = max (tbl_seq t) (max_rowid (tbl_rows t)) + 1, row_name = ?n, row_age = ?a\<rparr>],
           tbl_seq = max (tbl_seq t) (max_rowid (tbl_rows t)) + 1\<rparr>"
    by (auto split: if_splits)
  moreover have "db c \<in> set (conns w')"
    using prepare_ok [OF p] c3 c' step_frame [OF s] by auto
  ultimately show ?thesis
    using t u' u4 by auto
qed

lemma insertData_failed:
  assumes run: "insertData c name age w = (Inl e, w')"
  shows "users w' = users w"
proof (cases "validateInput name age")
  case (Inl e')
  with run show ?thesis by (simp add: insertData_def)
next
  case (Inr u)
  then have v: "validateInput name age = Inr ()" by simp
  from executePreparedSQL_unfold [OF insertData_unfold [OF v run]] obtain rc st w1 where
    p: "sqlite3_prepare_v2 (db c) INSERT_SQL w = ((rc, st), w1)" and
    rest: "if rc \<noteq> 0 then w' = w1
      else \<exists>rc1 w2 rc2 w3 rc3 w4.
        sqlite3_bind_text st 1 (c_str name) w1 = (rc1, w2) \<and>
        sqlite3_bind_int st 2 age w2 = (rc2, w3) \<and>
        sqlite3_step st w3 = (rc3, w4) \<and> rc3 \<noteq> 101 \<and> w' = w4"
    by (auto simp: c_str_INSERT_SQL split: if_splits)
  show ?thesis
  proof (cases "rc = 0")
    case False
    with rest prepare_frame [OF p] show ?thesis by simp
  next
    case True
    with rest obtain rc1 w2 rc2 w3 rc3 w4 where
      b1: "sqlite3_bind_text st 1 (c_str name) w1 = (rc1, w2)" and
      b2: "sqlite3_bind_int st 2 age w2 = (rc2, w3)" and
      s: "sqlite3_step st w3 = (rc3, w4)" and nd: "rc3 \<noteq> 101" and w': "w' = w4"
      by auto
    show ?thesis
      using prepare_frame [OF p] bind_text_frame [OF b1] bind_int_frame [OF b2]
        step_not_done [OF s nd] w' by simp
  qed
qed

lemma sql_sent_append: "sql_sent (xs @ ys) = sql_sent xs @ sql_sent ys"
  by (simp add: sql_sent_def)

lemma insertData_sql_sent:
  assumes v: "validateInput name age = Inr ()"
    and run: "insertData c name age w = (r, w')"
  shows "sql_sent (trace w') = sql_sent (trace w) @ [INSERT_SQL]"
proof -
  note e = insertData_unfold [OF v run]
  obtain rc st w1 where p: "sqlite3_prepare_v2 (db c) (c_str INSERT_SQL) w = ((rc, st), w1)"
    by (metis surj_pair)
  show ?thesis
  proof (cases "rc = 0")
    case False
    with executePreparedSQL_unfold [OF e] p have "w' = w1" by auto
    with prepare_frame [OF p] show ?thesis
      by (simp add: sql_sent_append c_str_INSERT_SQL) (simp add: sql_sent_def)
  next
    case True
    from executePreparedSQL_trace [OF p [unfolded True] e] show ?thesis
      by (auto simp: sql_sent_append c_str_INSERT_SQL) (simp_all add: sql_sent_def)
  qed
qed

lemma insertData_binds:
  assumes run: "insertData c name age w = (Inr (), w')"
  shows "\<exists>st. BindText st 1 (c_str name) \<in> fst ` set (trace w') \<and>
              BindInt st 2 (sint age) \<in> fst ` set (trace w')"
proof -
  have v: "validateInput name age = Inr ()"
    using run by (auto simp: insertData_def split: sum.splits)
  note e = insertData_unfold [OF v run]
  from executePreparedSQL_unfold [OF e] obtain st w1 where
    p: "sqlite3_prepare_v2 (db c) (c_str INSERT_SQL) w = ((0, st), w1)"
    by (auto split: if_splits)
  from executePreparedSQL_trace [OF p e] show ?thesis
    by (intro exI [of _ st]) force
qed

lemma select_output_snoc: "select_output (rs @ [r]) = select_output rs @ row_output r"
  by (simp add: select_output_def)

lemma exec_rows_callback:
  "exec_rows callback rs w = (0, w\<lparr>cout := cout w @ select_output rs\<rparr>)"
proof (induction rs arbitrary: w)
  case Nil
  then show ?case by (simp add: select_output_def)
next
  case (Cons r rs)
  then show ?case
    by (simp add: callback_def cout_write_def select_output_def row_output_def)
qed

lemma readData_quiet:
  assumes live: "db c \<in> set (conns w)" and q: "quiet 1 w" and t: "users w = Some t"
  shows "\<exists>w'. readData c w = (Inr (), w') \<and> cout w' = cout w @ select_output (tbl_rows t) \<and>
           users w' = users w"
proof -
  obtain f w0 where nf: "next_fault w = (f, w0)" by (metis prod.exhaust)
  from next_fault_quiet [OF nf] q have f: "f = NoFault" by (metis One_nat_def)
  have ne: "SELECT_SQL \<noteq> CREATE_SQL"
    by (simp add: SELECT_SQL_def CREATE_SQL_def)
  from live nf f t next_fault_frame [OF nf] show ?thesis
    by (simp add: readData_def DatabaseConnection_get_def sqlite3_exec_def ne
        exec_rows_callback log_call_def)
qed

text \<open>
  A failing step inside \<open>main\<close>: the exception unwinds through the destructor, whose
  \<open>sqlite3_close\<close> is refused with SQLITE_BUSY because of the statement that was not
  finalized, so the connection stays open as well.
\<close>

lemma main_step_failure:
  "(case main (initial_world [NoFault, NoFault, NoFault, NoFault, NoFault, Busy] None) of
      (rc, w) \<Rightarrow>
        rc = 0 \<and> conns w = [1] \<and> map fst (stmts w) = [2] \<and>
        filter (\<lambda>(c, rc). c = Open ''test.db'' \<or> c = Close 1) (trace w) =
          [(Open ''test.db'', 0), (Close 1, 5)] \<and>
        cerr w = ''Error: Failed to execute statement: database is locked'' @ endl)"
  by code_simp

section \<open>Claims\<close>

subsection \<open>C1: release of the prepared statement\<close>

text \<open>
  C1 says that the write path finalizes its prepared statement on every exit, also when
  stepping fails. \<open>executePreparedSQL\<close> (and \<open>updateData\<close> alike) finalizes only after a
  step that returned SQLITE_DONE; a failing step throws first. Three runs of one insert
  on an open connection: when the environment lets the step fail with SQLITE_BUSY the
  exception is thrown, the statement (handle 2) is still allocated afterwards, and the
  engine calls end with the step, with no finalize; when the prepare fails no statement
  was allocated; when all goes well the statement was finalized.
\<close>

theorem step_failure_leaks_statement:
  "(case insertData \<lparr>db = 1\<rparr> ''Alice'' 25
           (opened_world [NoFault, NoFault, NoFault, Busy] (Some \<lparr>tbl_rows = [], tbl_seq = 0\<rparr>)) of
      (r, w) \<Rightarrow>
        r = Inl (runtime_error ''Failed to execute statement: database is locked'') \<and>
        map fst (stmts w) = [2] \<and>
        trace w = [(Prepare 1 INSERT_SQL, 0), (BindText 2 1 ''Alice'', 0), (BindInt 2 2 25, 0),
                   (Step 2, 5)]) \<and>
   (case insertData \<lparr>db = 1\<rparr> ''Alice'' 25
           (opened_world [Busy] (Some \<lparr>tbl_rows = [], tbl_seq = 0\<rparr>)) of
      (r, w) \<Rightarrow>
        r = Inl (runtime_error ''Failed to prepare statement: database is locked'') \<and>
        stmts w = [] \<and> trace w = [(Prepare 1 INSERT_SQL, 5)]) \<and>
   (case insertData \<lparr>db = 1\<rparr> ''Alice'' 25
           (opened_world [] (Some \<lparr>tbl_rows = [], tbl_seq = 0\<rparr>)) of
      (r, w) \<Rightarrow>
        r = Inr () \<and> stmts w = [] \<and>
        trace w = [(Prepare 1 INSERT_SQL, 0), (BindText 2 1 ''Alice'', 0), (BindInt 2 2 25, 0),
                   (Step 2, 101), (Finalize 2, 0)])"
  by code_simp

subsection \<open>C2: release of the connection handle\<close>

text \<open>
  C2 says that the native handle is released exactly once however the owning scope is
  left, also when opening failed after a handle was acquired. The constructor throws
  without closing the handle that \<open>sqlite3_open\<close> returned, and no destructor runs for an
  object whose constructor threw. Two runs of \<open>main\<close> on fresh storage: when the
  environment makes the open fail with SQLITE_CANTOPEN, handle 1 is still allocated when
  \<open>main\<close> returns and \<open>sqlite3_close\<close> was never called; when nothing fails, the handle
  was closed once and is gone.
\<close>

theorem open_failure_leaks_handle:
  "(case main (initial_world [CantOpen] None) of
      (rc, w) \<Rightarrow>
        rc = 0 \<and> conns w = [1] \<and> trace w = [(Open ''test.db'', 14)] \<and>
        cerr w = ''Error: Failed to open database: unable to open database file'' @ endl) \<and>
   (case main (initial_world [] None) of
      (rc, w) \<Rightarrow>
        rc = 0 \<and> conns w = [] \<and> stmts w = [] \<and> cerr w = [] \<and>
        filter (\<lambda>(c, rc). c = Open ''test.db'' \<or> c = Close 1) (trace w) =
          [(Open ''test.db'', 0), (Close 1, 0)])"
  by code_simp

subsection \<open>C3: validation\<close>

text \<open>
  C3, amended. For every age in [0,150] and every name of 1 to 100 bytes \<open>validateInput\<close>
  returns normally; for every age outside [0,150] it throws the age error, whatever the
  name; for every age in [0,150] and every name that is empty or longer than 100 bytes it
  throws the name error. The age is checked first, so an input with both faults gets the
  age error.
\<close>

theorem validateInput_cases:
  "(0 \<le> sint age \<and> sint age \<le> 150 \<and> 1 \<le> length name \<and> length name \<le> 100 \<longrightarrow>
      validateInput name age = Inr ()) \<and>
   (sint age < 0 \<or> 150 < sint age \<longrightarrow>
      validateInput name age = Inl (invalid_argument ''Age must be between 0 and 150.'')) \<and>
   (0 \<le> sint age \<and> sint age \<le> 150 \<and> (name = [] \<or> 100 < length name) \<longrightarrow>
      validateInput name age = Inl (invalid_argument ''Name must be between 1 and 100 characters.''))"
  by (cases name) (auto simp: validateInput_def)

text \<open>C3, witness: one input for each of the cases.\<close>

theorem validateInput_cases_witness:
  "validateInput ''Alice'' 25 = Inr () \<and>
   validateInput ''Alice'' 151 = Inl (invalid_argument ''Age must be between 0 and 150.'') \<and>
   validateInput ''Alice'' (- 1) = Inl (invalid_argument ''Age must be between 0 and 150.'') \<and>
   validateInput [] 25 = Inl (invalid_argument ''Name must be between 1 and 100 characters.'') \<and>
   validateInput (replicate 101 CHR ''a'') 150 =
     Inl (invalid_argument ''Name must be between 1 and 100 characters.'')"
  using validateInput_cases [of 25 "''Alice''"] validateInput_cases [of 151 "''Alice''"]
    validateInput_cases [of "- 1" "''Alice''"] validateInput_cases [of 25 "[]"]
    validateInput_cases [of 150 "replicate 101 CHR ''a''"]
  by simp

text \<open>
  C3, counterexample to the claim as stated: the empty name with the age -1 does not get
  the name error.
\<close>

theorem validateInput_empty_name_bad_age:
  "validateInput [] (- 1) = Inl (invalid_argument ''Age must be between 0 and 150.'') \<and>
   validateInput [] (- 1) \<noteq> Inl (invalid_argument ''Name must be between 1 and 100 characters.'')"
  by (simp add: validateInput_def)

subsection \<open>C4: validation before any write\<close>

text \<open>
  C4. When the inputs fail validation, \<open>insertData\<close> and \<open>updateData\<close> throw the validation
  error (an \<open>invalid_argument\<close>) and leave the whole world as it was: no engine call was
  made (the trace is the same), no statement was prepared, and the table is unchanged.
\<close>

theorem invalid_input_no_effect:
  assumes "validateInput name age = Inl e"
  shows "insertData dbConn name age w = (Inl e, w) \<and>
         updateData dbConn ident name age w = (Inl e, w) \<and>
         (\<exists>m. e = invalid_argument m)"
  using assms by (auto simp: insertData_def updateData_def validateInput_def split: if_splits)

text \<open>C4, witness: an empty name for the insert, the age 151 for the update.\<close>

theorem invalid_input_no_effect_witness:
  "insertData \<lparr>db = 1\<rparr> [] 25 (opened_world [] (Some \<lparr>tbl_rows = [], tbl_seq = 0\<rparr>)) =
     (Inl (invalid_argument ''Name must be between 1 and 100 characters.''),
      opened_world [] (Some \<lparr>tbl_rows = [], tbl_seq = 0\<rparr>)) \<and>
   updateData \<lparr>db = 1\<rparr> 1 ''Bob'' 151 (opened_world [] (Some \<lparr>tbl_rows = [], tbl_seq = 0\<rparr>)) =
     (Inl (invalid_argument ''Age must be between 0 and 150.''),
      opened_world [] (Some \<lparr>tbl_rows = [], tbl_seq = 0\<rparr>))"
proof -
  have a: "validateInput [] 25 = Inl (invalid_argument ''Name must be between 1 and 100 characters.'')"
    by (simp add: validateInput_def)
  have b: "validateInput ''Bob'' 151 = Inl (invalid_argument ''Age must be between 0 and 150.'')"
    by (simp add: validateInput_def)
  show ?thesis
    using invalid_input_no_effect [OF a] invalid_input_no_effect [OF b] by simp
qed

subsection \<open>C5: binding instead of interpolation\<close>

text \<open>
  C5, amended. For every valid name and age, whatever the name contains, the one SQL text
  that \<open>insertData\<close> hands to the engine is the constant insert statement with its two
  placeholders. When the insert succeeds, the name was bound as text at position 1 and
  the age as an integer at position 2, and the table is the old table with one row added
  whose name is the zero-terminated text of the argument: the argument itself, unchanged,
  when it contains no zero byte. When the insert fails the table is as before. In either
  case the table still exists and every old row is still there, unchanged and in place.
\<close>

theorem insert_binds_by_position:
  assumes v: "validateInput name age = Inr ()"
    and run: "insertData c name age w = (r, w')"
  shows "sql_sent (trace w') = sql_sent (trace w) @ [INSERT_SQL] \<and>
     (r = Inr () \<longrightarrow>
        (\<exists>t new st. users w = Some t \<and>
           users w' =
             Some \<lparr>tbl_rows = tbl_rows t @
                     [\<lparr>row_id = new, row_name = SqlText (c_str name), row_age = SqlInt (sint age)\<rparr>],
                   tbl_seq = new\<rparr> \<and>
           BindText st 1 (c_str name) \<in> fst ` set (trace w') \<and>
           BindInt st 2 (sint age) \<in> fst ` set (trace w'))) \<and>
     (r \<noteq> Inr () \<longrightarrow> users w' = users w) \<and>
     (\<forall>t. users w = Some t \<longrightarrow>
        (\<exists>t'. users w' = Some t' \<and> take (length (tbl_rows t)) (tbl_rows t') = tbl_rows t)) \<and>
     (CHR 0x00 \<notin> set name \<longrightarrow> c_str name = name)"
proof (intro conjI impI allI)
  show "sql_sent (trace w') = sql_sent (trace w) @ [INSERT_SQL]"
    by (rule insertData_sql_sent [OF v run])
next
  assume "r = Inr ()"
  with run have ok: "insertData c name age w = (Inr (), w')" by simp
  from insertData_ok [OF ok] insertData_binds [OF ok]
  show "\<exists>t new st. users w = Some t \<and>
           users w' =
             Some \<lparr>tbl_rows = tbl_rows t @
                     [\<lparr>row_id = new, row_name = SqlText (c_str name), row_age = SqlInt (sint age)\<rparr>],
                   tbl_seq = new\<rparr> \<and>
           BindText st 1 (c_str name) \<in> fst ` set (trace w') \<and>
           BindInt st 2 (sint age) \<in> fst ` set (trace w')"
    by blast
next
  assume "r \<noteq> Inr ()"
  then obtain e where "r = Inl e" by (cases r) auto
  with run show "users w' = users w" by (simp add: insertData_failed)
next
  fix t assume t: "users w = Some t"
  show "\<exists>t'. users w' = Some t' \<and> take (length (tbl_rows t)) (tbl_rows t') = tbl_rows t"
  proof (cases r)
    case (Inl e)
    with run t show ?thesis by (simp add: insertData_failed)
  next
    case (Inr u)
    with run have ok: "insertData c name age w = (Inr (), w')" by simp
    from insertData_ok [OF ok] t show ?thesis by auto
  qed
next
  assume "CHR 0x00 \<notin> set name"
  then show "c_str name = name" by (rule c_str_no_zero)
qed

text \<open>
  C5, witness: the injection probe of the specification is stored as it is, and the
  table keeps its two rows.
\<close>

theorem insert_binds_by_position_witness:
  "validateInput ''Robert'); DROP TABLE Users;--'' 30 = Inr () \<and>
   fst (insertData \<lparr>db = 1\<rparr> ''Robert'); DROP TABLE Users;--'' 30 (opened_world [] (Some two_users))) =
     Inr () \<and>
   sql_sent (trace (snd (insertData \<lparr>db = 1\<rparr> ''Robert'); DROP TABLE Users;--'' 30
                           (opened_world [] (Some two_users))))) = [INSERT_SQL] \<and>
   users (snd (insertData \<lparr>db = 1\<rparr> ''Robert'); DROP TABLE Users;--'' 30
                 (opened_world [] (Some two_users)))) =
     Some \<lparr>tbl_rows = tbl_rows two_users @
             [\<lparr>row_id = 3, row_name = SqlText ''Robert'); DROP TABLE Users;--'',
               row_age = SqlInt 30\<rparr>],
           tbl_seq = 3\<rparr>"
proof -
  let ?n = "''Robert'); DROP TABLE Users;--''"
  let ?w = "opened_world [] (Some two_users)"
  have v: "validateInput ?n 30 = Inr ()"
    by (simp add: validateInput_def)
  have run: "insertData \<lparr>db = 1\<rparr> ?n 30 ?w =
      (fst (insertData \<lparr>db = 1\<rparr> ?n 30 ?w), snd (insertData \<lparr>db = 1\<rparr> ?n 30 ?w))"
    by simp
  have r: "fst (insertData \<lparr>db = 1\<rparr> ?n 30 ?w) = Inr ()"
    by code_simp
  have nz: "CHR 0x00 \<notin> set ?n"
    by simp
  have t: "users ?w = Some two_users"
    by (simp add: opened_world_def initial_world_def)
  have tr: "sql_sent (trace ?w) = []"
    by (simp add: opened_world_def initial_world_def sql_sent_def)
  have m: "max (tbl_seq two_users) (max_rowid (tbl_rows two_users)) + 1 = 3"
    by (simp add: two_users_def max_rowid_def)
  from insert_binds_by_position [OF v run] r nz t tr
  have "sql_sent (trace (snd (insertData \<lparr>db = 1\<rparr> ?n 30 ?w))) = [INSERT_SQL]" and
    "\<exists>new. users (snd (insertData \<lparr>db = 1\<rparr> ?n 30 ?w)) =
       Some \<lparr>tbl_rows = tbl_rows two_users @
               [\<lparr>row_id = new, row_name = SqlText ?n, row_age = SqlInt 30\<rparr>],
             tbl_seq = new\<rparr>"
    by auto
  moreover have "users (snd (insertData \<lparr>db = 1\<rparr> ?n 30 ?w)) =
     Some \<lparr>tbl_rows = tbl_rows two_users @
             [\<lparr>row_id = 3, row_name = SqlText ?n, row_age = SqlInt 30\<rparr>],
           tbl_seq = 3\<rparr>"
    by code_simp
  ultimately show ?thesis using v r by simp
qed

text \<open>
  C5, counterexample to the claim as stated: the three bytes A, zero, B pass the
  validation, and what is stored is the one byte A.
\<close>

theorem insert_truncates_at_zero_byte:
  "validateInput [CHR ''A'', CHR 0x00, CHR ''B''] 25 = Inr () \<and>
   fst (insertData \<lparr>db = 1\<rparr> [CHR ''A'', CHR 0x00, CHR ''B''] 25 (opened_world [] (Some two_users))) =
     Inr () \<and>
   users (snd (insertData \<lparr>db = 1\<rparr> [CHR ''A'', CHR 0x00, CHR ''B''] 25
                 (opened_world [] (Some two_users)))) =
     Some \<lparr>tbl_rows = tbl_rows two_users @
             [\<lparr>row_id = 3, row_name = SqlText ''A'', row_age = SqlInt 25\<rparr>],
           tbl_seq = 3\<rparr> \<and>
   ''A'' \<noteq> [CHR ''A'', CHR 0x00, CHR ''B'']"
proof -
  have "validateInput [CHR ''A'', CHR 0x00, CHR ''B''] 25 = Inr ()"
    by (simp add: validateInput_def)
  moreover have "fst (insertData \<lparr>db = 1\<rparr> [CHR ''A'', CHR 0x00, CHR ''B''] 25
                        (opened_world [] (Some two_users))) = Inr ()"
    by code_simp
  moreover have "users (snd (insertData \<lparr>db = 1\<rparr> [CHR ''A'', CHR 0x00, CHR ''B''] 25
                 (opened_world [] (Some two_users)))) =
     Some \<lparr>tbl_rows = tbl_rows two_users @
             [\<lparr>row_id = 3, row_name = SqlText ''A'', row_age = SqlInt 25\<rparr>],
           tbl_seq = 3\<rparr>"
    by code_simp
  ultimately show ?thesis by simp
qed

subsection \<open>C6: creating the table twice\<close>

text \<open>
  C6. Two calls of \<open>createTable\<close> in a row on one connection. On an open connection
  and with no fault injected by the environment both return normally. After a first call
  that returned normally the table exists, and the second call leaves the table, the
  connections and the statements as they are; it returns normally whenever the environment
  injects no fault, and when it throws, what it throws is the environment's fault, never
  that the table exists.
\<close>

theorem createTable_twice:
  assumes c1: "createTable d w = (r1, w1)"
    and c2: "createTable d w1 = (r2, w2)"
  shows "(d \<in> set (conns w) \<and> quiet 2 w \<longrightarrow> r1 = Inr () \<and> r2 = Inr ()) \<and>
         (r1 = Inr () \<longrightarrow>
            users w1 \<noteq> None \<and> users w2 = users w1 \<and> conns w2 = conns w1 \<and>
            stmts w2 = stmts w1 \<and>
            (quiet 1 w1 \<longrightarrow> r2 = Inr ()) \<and>
            (r2 \<noteq> Inr () \<longrightarrow>
               (\<exists>f. f \<noteq> NoFault \<and>
                  r2 = Inl (runtime_error (''Failed to create table: '' @ fault_msg f)))))"
proof (intro conjI impI)
  assume h: "d \<in> set (conns w) \<and> quiet 2 w"
  then have q2: "quiet (Suc 1) w" by (simp add: numeral_2_eq_2)
  then have q1: "quiet 1 w" by (rule quiet_mono)
  from createTable_facts [OF c1] h q1 q2 have 1: "r1 = Inr ()" and "quiet 1 w1" and
    "d \<in> set (conns w1)"
    by auto
  with createTable_facts [OF c2] have 2: "r2 = Inr ()" by blast
  from 1 show "r1 = Inr ()" .
  from 2 show "r2 = Inr ()" .
next
  assume ok: "r1 = Inr ()"
  with createTable_facts [OF c1] have u1: "users w1 \<noteq> None" and live: "d \<in> set (conns w1)"
    by auto
  from u1 show "users w1 \<noteq> None" .
  from createTable_facts [OF c2] u1 show "users w2 = users w1" by blast
  from createTable_facts [OF c2] show "conns w2 = conns w1" by blast
  from createTable_facts [OF c2] show "stmts w2 = stmts w1" by blast
  { assume "quiet 1 w1"
    with createTable_facts [OF c2] live show "r2 = Inr ()" by blast }
  { assume "r2 \<noteq> Inr ()"
    with createTable_facts [OF c2] live
    show "\<exists>f. f \<noteq> NoFault \<and>
            r2 = Inl (runtime_error (''Failed to create table: '' @ fault_msg f))"
      by blast }
qed

text \<open>
  C6, witness. On fresh storage both calls return normally and the second leaves the
  empty table. On storage with two rows, a disk error injected into the second call makes
  it throw, and the two rows are still there.
\<close>

theorem createTable_twice_witness:
  "quiet 2 (opened_world [] None) \<and>
   fst (createTable 1 (opened_world [] None)) = Inr () \<and>
   fst (createTable 1 (snd (createTable 1 (opened_world [] None)))) = Inr () \<and>
   users (snd (createTable 1 (opened_world [] None))) = Some \<lparr>tbl_rows = [], tbl_seq = 0\<rparr> \<and>
   users (snd (createTable 1 (snd (createTable 1 (opened_world [] None))))) =
     users (snd (createTable 1 (opened_world [] None))) \<and>
   users (snd (createTable 1 (snd (createTable 1 (opened_world [NoFault, IoError] (Some two_users)))))) =
     Some two_users \<and>
   fst (createTable 1 (snd (createTable 1 (opened_world [NoFault, IoError] (Some two_users))))) =
     Inl (runtime_error ''Failed to create table: disk I/O error'')"
proof -
  let ?w = "opened_world [] None"
  let ?v = "opened_world [NoFault, IoError] (Some two_users)"
  have live: "1 \<in> set (conns ?w)"
    by (simp add: opened_world_def initial_world_def)
  have q: "quiet 2 ?w"
    by (simp add: quiet_def opened_world_def initial_world_def)
  have c1: "createTable 1 ?w = (fst (createTable 1 ?w), snd (createTable 1 ?w))"
    by simp
  have c2: "createTable 1 (snd (createTable 1 ?w)) =
      (fst (createTable 1 (snd (createTable 1 ?w))), snd (createTable 1 (snd (createTable 1 ?w))))"
    by simp
  have u: "users (snd (createTable 1 ?w)) = Some \<lparr>tbl_rows = [], tbl_seq = 0\<rparr>"
    by code_simp
  have d1: "createTable 1 ?v = (fst (createTable 1 ?v), snd (createTable 1 ?v))"
    by simp
  have d2: "createTable 1 (snd (createTable 1 ?v)) =
      (fst (createTable 1 (snd (createTable 1 ?v))), snd (createTable 1 (snd (createTable 1 ?v))))"
    by simp
  have r1: "fst (createTable 1 ?v) = Inr ()"
    by code_simp
  have uv: "users (snd (createTable 1 ?v)) = Some two_users"
    by code_simp
  have e: "fst (createTable 1 (snd (createTable 1 ?v))) =
     Inl (runtime_error ''Failed to create table: disk I/O error'')"
    by code_simp
  from createTable_twice [OF c1 c2] live q createTable_twice [OF d1 d2] r1 uv u e
  show ?thesis by simp
qed

subsection \<open>C7: insert, then read\<close>

text \<open>
  C7, amended. After a successful \<open>insertData\<close> the table is the old table with exactly
  one row added at the end. The id of the new row is greater than the id of every row of
  the old table and greater than the largest id the table has ever held, so it is unique.
  Its age is the inserted age, and its name is the zero-terminated text of the inserted
  name (the name itself when it contains no zero byte). A following \<open>readData\<close> that the
  environment leaves alone returns normally, leaves the table as it is, and prints what a
  scan of the old rows prints, followed by the output for the new row.
\<close>

theorem insert_then_read:
  assumes ins: "insertData c name age w = (Inr (), w1)"
  shows "\<exists>t new. users w = Some t \<and>
     tbl_seq t < new \<and> (\<forall>r \<in> set (tbl_rows t). row_id r < new) \<and>
     users w1 =
       Some \<lparr>tbl_rows = tbl_rows t @
               [\<lparr>row_id = new, row_name = SqlText (c_str name), row_age = SqlInt (sint age)\<rparr>],
             tbl_seq = new\<rparr> \<and>
     (quiet 1 w1 \<longrightarrow>
        (\<exists>w2. readData c w1 = (Inr (), w2) \<and> users w2 = users w1 \<and>
           cout w2 = cout w1 @ select_output (tbl_rows t) @
             row_output \<lparr>row_id = new, row_name = SqlText (c_str name),
                         row_age = SqlInt (sint age)\<rparr>))"
proof -
  from insertData_ok [OF ins] obtain t where
    t: "users w = Some t" and live: "db c \<in> set (conns w1)" and
    u1: "users w1 =
       Some \<lparr>tbl_rows = tbl_rows t @
               [\<lparr>row_id = max (tbl_seq t) (max_rowid (tbl_rows t)) + 1,
                 row_name = SqlText (c_str name), row_age = SqlInt (sint age)\<rparr>],
             tbl_seq = max (tbl_seq t) (max_rowid (tbl_rows t)) + 1\<rparr>"
    by blast
  let ?new = "max (tbl_seq t) (max_rowid (tbl_rows t)) + 1"
  have 1: "tbl_seq t < ?new" by simp
  have 2: "\<forall>r \<in> set (tbl_rows t). row_id r < ?new"
    using max_rowid_ge by fastforce
  have 3: "quiet 1 w1 \<longrightarrow>
        (\<exists>w2. readData c w1 = (Inr (), w2) \<and> users w2 = users w1 \<and>
           cout w2 = cout w1 @ select_output (tbl_rows t) @
             row_output \<lparr>row_id = ?new, row_name = SqlText (c_str name),
                         row_age = SqlInt (sint age)\<rparr>)"
  proof
    assume q: "quiet 1 w1"
    from readData_quiet [OF live q u1] show
      "\<exists>w2. readData c w1 = (Inr (), w2) \<and> users w2 = users w1 \<and>
           cout w2 = cout w1 @ select_output (tbl_rows t) @
             row_output \<lparr>row_id = ?new, row_name = SqlText (c_str name),
                         row_age = SqlInt (sint age)\<rparr>"
      by (auto simp: select_output_snoc)
  qed
  show ?thesis
    by (rule exI [of _ t], rule exI [of _ ?new]) (use t u1 1 2 3 in blast)
qed

text \<open>C7, witness: Carol, 41, after Alice and Bob gets the id 3.\<close>

theorem insert_then_read_witness:
  "fst (insertData \<lparr>db = 1\<rparr> ''Carol'' 41 (opened_world [] (Some two_users))) = Inr () \<and>
   quiet 1 (snd (insertData \<lparr>db = 1\<rparr> ''Carol'' 41 (opened_world [] (Some two_users)))) \<and>
   (\<exists>t new. users (opened_world [] (Some two_users)) = Some t \<and>
      tbl_seq t < new \<and> list_all (\<lambda>r. row_id r < new) (tbl_rows t) \<and>
      users (snd (insertData \<lparr>db = 1\<rparr> ''Carol'' 41 (opened_world [] (Some two_users)))) =
        Some \<lparr>tbl_rows = tbl_rows t @
                [\<lparr>row_id = new, row_name = SqlText ''Carol'', row_age = SqlInt 41\<rparr>],
              tbl_seq = new\<rparr> \<and>
      cout (snd (readData \<lparr>db = 1\<rparr>
                   (snd (insertData \<lparr>db = 1\<rparr> ''Carol'' 41 (opened_world [] (Some two_users)))))) =
        cout (snd (insertData \<lparr>db = 1\<rparr> ''Carol'' 41 (opened_world [] (Some two_users)))) @
        select_output (tbl_rows t) @
        row_output \<lparr>row_id = new, row_name = SqlText ''Carol'', row_age = SqlInt 41\<rparr>) \<and>
   row_output \<lparr>row_id = 3, row_name = SqlText ''Carol'', row_age = SqlInt 41\<rparr> =
     ''ID: 3'' @ endl @ ''Name: Carol'' @ endl @ ''Age: 41'' @ endl @
     ''-----------------------'' @ endl \<and>
   users (snd (insertData \<lparr>db = 1\<rparr> ''Carol'' 41 (opened_world [] (Some two_users)))) =
     Some \<lparr>tbl_rows = tbl_rows two_users @
             [\<lparr>row_id = 3, row_name = SqlText ''Carol'', row_age = SqlInt 41\<rparr>],
           tbl_seq = 3\<rparr>"
proof -
  let ?w = "opened_world [] (Some two_users)"
  let ?w1 = "snd (insertData \<lparr>db = 1\<rparr> ''Carol'' 41 ?w)"
  have r: "fst (insertData \<lparr>db = 1\<rparr> ''Carol'' 41 ?w) = Inr ()"
    by code_simp
  then have ins: "insertData \<lparr>db = 1\<rparr> ''Carol'' 41 ?w = (Inr (), ?w1)"
    by (metis prod.collapse)
  have q: "quiet 1 ?w1"
    by code_simp
  have c: "c_str ''Carol'' = ''Carol''"
    by (simp add: c_str_def)
  have ro: "row_output \<lparr>row_id = 3, row_name = SqlText ''Carol'', row_age = SqlInt 41\<rparr> =
     ''ID: 3'' @ endl @ ''Name: Carol'' @ endl @ ''Age: 41'' @ endl @
     ''-----------------------'' @ endl"
    by code_simp
  have u: "users ?w1 =
     Some \<lparr>tbl_rows = tbl_rows two_users @
             [\<lparr>row_id = 3, row_name = SqlText ''Carol'', row_age = SqlInt 41\<rparr>],
           tbl_seq = 3\<rparr>"
    by code_simp
  from insert_then_read [OF ins] q obtain t new w2 where
    "users ?w = Some t" "tbl_seq t < new" "\<forall>r \<in> set (tbl_rows t). row_id r < new"
    "users ?w1 =
       Some \<lparr>tbl_rows = tbl_rows t @
               [\<lparr>row_id = new, row_name = SqlText (c_str ''Carol''),
                 row_age = SqlInt (sint (41 :: cint))\<rparr>],
             tbl_seq = new\<rparr>"
    "readData \<lparr>db = 1\<rparr> ?w1 = (Inr (), w2)"
    "cout w2 = cout ?w1 @ select_output (tbl_rows t) @
             row_output \<lparr>row_id = new, row_name = SqlText (c_str ''Carol''),
                         row_age = SqlInt (sint (41 :: cint))\<rparr>"
    by blast
  then have "\<exists>t new. users ?w = Some t \<and>
      tbl_seq t < new \<and> list_all (\<lambda>r. row_id r < new) (tbl_rows t) \<and>
      users ?w1 =
        Some \<lparr>tbl_rows = tbl_rows t @
                [\<lparr>row_id = new, row_name = SqlText ''Carol'', row_age = SqlInt 41\<rparr>],
              tbl_seq = new\<rparr> \<and>
      cout (snd (readData \<lparr>db = 1\<rparr> ?w1)) =
        cout ?w1 @ select_output (tbl_rows t) @
        row_output \<lparr>row_id = new, row_name = SqlText ''Carol'', row_age = SqlInt 41\<rparr>"
    unfolding c by (intro exI [of _ t] exI [of _ new]) (simp add: list_all_iff)
  with r q ro u show ?thesis by blast
qed

text \<open>
  C7, counterexample to the claim as stated: the four bytes B, o, zero, b are valid and
  are inserted successfully, and the row that \<open>readData\<close> then shows has the name Bo.
\<close>

theorem read_shows_truncated_name:
  "validateInput [CHR ''B'', CHR ''o'', CHR 0x00, CHR ''b''] 30 = Inr () \<and>
   fst (insertData \<lparr>db = 1\<rparr> [CHR ''B'', CHR ''o'', CHR 0x00, CHR ''b''] 30
          (opened_world [] (Some \<lparr>tbl_rows = [], tbl_seq = 0\<rparr>))) = Inr () \<and>
   fst (readData \<lparr>db = 1\<rparr>
          (snd (insertData \<lparr>db = 1\<rparr> [CHR ''B'', CHR ''o'', CHR 0x00, CHR ''b''] 30
                  (opened_world [] (Some \<lparr>tbl_rows = [], tbl_seq = 0\<rparr>))))) = Inr () \<and>
   cout (snd (readData \<lparr>db = 1\<rparr>
                (snd (insertData \<lparr>db = 1\<rparr> [CHR ''B'', CHR ''o'', CHR 0x00, CHR ''b''] 30
                        (opened_world [] (Some \<lparr>tbl_rows = [], tbl_seq = 0\<rparr>)))))) =
     ''Operation completed successfully!'' @ endl @
     ''ID: 1'' @ endl @ ''Name: Bo'' @ endl @ ''Age: 30'' @ endl @
     ''-----------------------'' @ endl \<and>
   users (snd (insertData \<lparr>db = 1\<rparr> [CHR ''B'', CHR ''o'', CHR 0x00, CHR ''b''] 30
                 (opened_world [] (Some \<lparr>tbl_rows = [], tbl_seq = 0\<rparr>)))) =
     Some \<lparr>tbl_rows = [\<lparr>row_id = 1, row_name = SqlText ''Bo'', row_age = SqlInt 30\<rparr>],
           tbl_seq = 1\<rparr> \<and>
   ''Bo'' \<noteq> [CHR ''B'', CHR ''o'', CHR 0x00, CHR ''b'']"
  by code_simp

subsection \<open>C8: update of an id that no row has\<close>

text \<open>
  C8. Let the name and the age be valid and let no row of the table have the given id.
  Then \<open>updateData\<close> leaves the table unchanged whatever it returns, and when the
  connection is open and the environment injects no fault into its five engine calls it
  returns normally: no row matched is not an error.
\<close>

theorem update_missing_id_no_effect:
  assumes v: "validateInput name age = Inr ()"
    and t: "users w = Some t"
    and none: "\<not> list_ex (\<lambda>r. row_id r = sint ident) (tbl_rows t)"
  shows "(\<forall>r w'. updateData c ident name age w = (r, w') \<longrightarrow> users w' = users w) \<and>
         (db c \<in> set (conns w) \<and> quiet 5 w \<longrightarrow>
            (\<exists>w'. updateData c ident name age w = (Inr (), w') \<and> users w' = users w))"
proof (intro conjI allI impI)
  fix r w'
  assume run: "updateData c ident name age w = (r, w')"
  show "users w' = users w"
  proof (cases r)
    case (Inl e)
    with run show ?thesis by (simp add: updateData_failed)
  next
    case (Inr u)
    with run have ok: "updateData c ident name age w = (Inr (), w')" by simp
    from updateData_ok [OF ok] t obtain n a i where
      u: "users w' = Some (t\<lparr>tbl_rows :=
            map (\<lambda>r. if SqlInt (row_id r) = i then r\<lparr>row_name := n, row_age := a\<rparr> else r)
              (tbl_rows t)\<rparr>)" and
      i: "i = SqlNull \<or> i = SqlInt (sint ident)"
      by auto
    from i none have "\<not> list_ex (\<lambda>r. SqlInt (row_id r) = i) (tbl_rows t)"
      by (auto simp: list_ex_iff)
    then show ?thesis using u t by (simp add: map_no_match)
  qed
next
  assume h: "db c \<in> set (conns w) \<and> quiet 5 w"
  obtain r w' where run: "updateData c ident name age w = (r, w')"
    by (metis prod.exhaust)
  from updateData_quiet [OF v conjunct1 [OF h] t conjunct2 [OF h] run] none t
  have "r = Inr ()" and "users w' = users w"
    by (simp_all add: map_no_match)
  with run show "\<exists>w'. updateData c ident name age w = (Inr (), w') \<and> users w' = users w"
    by auto
qed

text \<open>C8, witness: the id 7 in the table of Alice (1) and Bob (2).\<close>

theorem update_missing_id_no_effect_witness:
  "validateInput ''Zed'' 40 = Inr () \<and>
   \<not> list_ex (\<lambda>r. row_id r = sint (7 :: cint)) (tbl_rows two_users) \<and>
   quiet 5 (opened_world [] (Some two_users)) \<and>
   fst (updateData \<lparr>db = 1\<rparr> 7 ''Zed'' 40 (opened_world [] (Some two_users))) = Inr () \<and>
   users (snd (updateData \<lparr>db = 1\<rparr> 7 ''Zed'' 40 (opened_world [] (Some two_users)))) =
     Some two_users"
proof -
  let ?w = "opened_world [] (Some two_users)"
  have v: "validateInput ''Zed'' 40 = Inr ()"
    by (simp add: validateInput_def)
  have t: "users ?w = Some two_users"
    by (simp add: opened_world_def initial_world_def)
  have none: "\<not> list_ex (\<lambda>r. row_id r = sint (7 :: cint)) (tbl_rows two_users)"
    by (simp add: two_users_def)
  have live: "db \<lparr>db = 1\<rparr> \<in> set (conns ?w)"
    by (simp add: opened_world_def initial_world_def)
  have q: "quiet 5 ?w"
    by (simp add: quiet_def opened_world_def initial_world_def)
  from update_missing_id_no_effect [OF v t none, of "\<lparr>db = 1\<rparr>"] live q
  obtain w' where "updateData \<lparr>db = 1\<rparr> 7 ''Zed'' 40 ?w = (Inr (), w')" and "users w' = users ?w"
    by blast
  with v t none q show ?thesis by simp
qed

subsection \<open>C9: what an update may change\<close>

text \<open>
  C9. After a successful \<open>updateData\<close> the table has the same rows in the same order
  with the same ids and the same AUTOINCREMENT counter; every row whose id is not the
  given one is unchanged; and a row that changed differs from the old one only in its
  name and age, which are the new values (the name as the zero-terminated text of the
  argument). When the connection is open and the environment injects no fault, the rows
  with the given id are exactly the ones that carry the new name and age.
\<close>

theorem update_changes_only_matched_row:
  assumes run: "updateData c ident name age w = (Inr (), w')"
  shows "\<exists>t t'. users w = Some t \<and> users w' = Some t' \<and> tbl_seq t' = tbl_seq t \<and>
     length (tbl_rows t') = length (tbl_rows t) \<and>
     (\<forall>k < length (tbl_rows t).
        row_id (tbl_rows t' ! k) = row_id (tbl_rows t ! k) \<and>
        (row_id (tbl_rows t ! k) \<noteq> sint ident \<longrightarrow> tbl_rows t' ! k = tbl_rows t ! k) \<and>
        (tbl_rows t' ! k = tbl_rows t ! k \<or>
         tbl_rows t' ! k =
           (tbl_rows t ! k)\<lparr>row_name := SqlText (c_str name), row_age := SqlInt (sint age)\<rparr>)) \<and>
     (db c \<in> set (conns w) \<and> quiet 5 w \<longrightarrow>
        tbl_rows t' =
          map (\<lambda>r. if row_id r = sint ident
                    then r\<lparr>row_name := SqlText (c_str name), row_age := SqlInt (sint age)\<rparr> else r)
            (tbl_rows t))"
proof -
  from updateData_ok [OF run] obtain t n a i where
    t: "users w = Some t" and
    u: "users w' = Some (t\<lparr>tbl_rows :=
          map (\<lambda>r. if SqlInt (row_id r) = i then r\<lparr>row_name := n, row_age := a\<rparr> else r)
            (tbl_rows t)\<rparr>)" and
    i: "i = SqlNull \<or> i = SqlInt (sint ident)" and
    m: "list_ex (\<lambda>r. SqlInt (row_id r) = i) (tbl_rows t) \<longrightarrow>
          n = SqlText (c_str name) \<and> a = SqlInt (sint age)"
    by blast
  let ?t' = "t\<lparr>tbl_rows :=
          map (\<lambda>r. if SqlInt (row_id r) = i then r\<lparr>row_name := n, row_age := a\<rparr> else r)
            (tbl_rows t)\<rparr>"
  have v: "validateInput name age = Inr ()"
    using run by (auto simp: updateData_def split: sum.splits)
  have rows: "\<forall>k < length (tbl_rows t).
        row_id (tbl_rows ?t' ! k) = row_id (tbl_rows t ! k) \<and>
        (row_id (tbl_rows t ! k) \<noteq> sint ident \<longrightarrow> tbl_rows ?t' ! k = tbl_rows t ! k) \<and>
        (tbl_rows ?t' ! k = tbl_rows t ! k \<or>
         tbl_rows ?t' ! k =
           (tbl_rows t ! k)\<lparr>row_name := SqlText (c_str name), row_age := SqlInt (sint age)\<rparr>)"
  proof (intro allI impI)
    fix k assume k: "k < length (tbl_rows t)"
    then have "tbl_rows t ! k \<in> set (tbl_rows t)" by simp
    then have "SqlInt (row_id (tbl_rows t ! k)) = i \<longrightarrow>
        n = SqlText (c_str name) \<and> a = SqlInt (sint age)"
      using m by (auto simp: list_ex_iff)
    with k i show "row_id (tbl_rows ?t' ! k) = row_id (tbl_rows t ! k) \<and>
        (row_id (tbl_rows t ! k) \<noteq> sint ident \<longrightarrow> tbl_rows ?t' ! k = tbl_rows t ! k) \<and>
        (tbl_rows ?t' ! k = tbl_rows t ! k \<or>
         tbl_rows ?t' ! k =
           (tbl_rows t ! k)\<lparr>row_name := SqlText (c_str name), row_age := SqlInt (sint age)\<rparr>)"
      by auto
  qed
  have exact: "db c \<in> set (conns w) \<and> quiet 5 w \<longrightarrow>
        tbl_rows ?t' =
          map (\<lambda>r. if row_id r = sint ident
                    then r\<lparr>row_name := SqlText (c_str name), row_age := SqlInt (sint age)\<rparr> else r)
            (tbl_rows t)"
  proof
    assume h: "db c \<in> set (conns w) \<and> quiet 5 w"
    from updateData_quiet [OF v conjunct1 [OF h] t conjunct2 [OF h] run] u
    show "tbl_rows ?t' =
          map (\<lambda>r. if row_id r = sint ident
                    then r\<lparr>row_name := SqlText (c_str name), row_age := SqlInt (sint age)\<rparr> else r)
            (tbl_rows t)"
      by simp
  qed
  show ?thesis
    by (rule exI [of _ t], rule exI [of _ ?t']) (use t u rows exact in simp)
qed

text \<open>C9, witness: the update of \<open>main\<close>, Bob (id 2) to the age 35.\<close>

theorem update_changes_only_matched_row_witness:
  "fst (updateData \<lparr>db = 1\<rparr> 2 ''Bob'' 35 (opened_world [] (Some two_users))) = Inr () \<and>
   (\<exists>t t'. users (opened_world [] (Some two_users)) = Some t \<and>
      users (snd (updateData \<lparr>db = 1\<rparr> 2 ''Bob'' 35 (opened_world [] (Some two_users)))) = Some t' \<and>
      tbl_seq t' = tbl_seq t \<and> length (tbl_rows t') = length (tbl_rows t) \<and>
      tbl_rows t' ! 0 = tbl_rows t ! 0 \<and>
      row_id (tbl_rows t' ! 1) = row_id (tbl_rows t ! 1) \<and>
      tbl_rows t' =
        [\<lparr>row_id = 1, row_name = SqlText ''Alice'', row_age = SqlInt 25\<rparr>,
         \<lparr>row_id = 2, row_name = SqlText ''Bob'', row_age = SqlInt 35\<rparr>])"
proof -
  let ?w = "opened_world [] (Some two_users)"
  have r: "fst (updateData \<lparr>db = 1\<rparr> 2 ''Bob'' 35 ?w) = Inr ()"
    by code_simp
  then have run: "updateData \<lparr>db = 1\<rparr> 2 ''Bob'' 35 ?w =
      (Inr (), snd (updateData \<lparr>db = 1\<rparr> 2 ''Bob'' 35 ?w))"
    by (metis prod.collapse)
  have live: "db \<lparr>db = 1\<rparr> \<in> set (conns ?w)"
    by (simp add: opened_world_def initial_world_def)
  have q: "quiet 5 ?w"
    by (simp add: quiet_def opened_world_def initial_world_def)
  have t: "users ?w = Some two_users"
    by (simp add: opened_world_def initial_world_def)
  from update_changes_only_matched_row [OF run] live q t r show ?thesis
    by (auto simp: two_users_def c_str_def)
qed

subsection \<open>C10: the results of the binding calls\<close>

text \<open>
  C10. Once the statement is prepared, \<open>executePreparedSQL\<close> makes exactly these engine
  calls, in this order: it binds the name as text at position 1, binds the age as an
  integer at position 2, and steps, whatever the two binding calls returned; it finalizes
  if the step returned SQLITE_DONE. Whether it returns or throws depends on the result of
  the step alone, and what it throws then is the step's error. \<open>updateData\<close> does the
  same with a third binding, the id as an integer at position 3. No result code of a
  binding call reaches the caller.
\<close>

theorem bind_results_discarded:
  "(sqlite3_prepare_v2 d (c_str sql) w = ((0, st), w1) \<and>
    executePreparedSQL d sql name age w = (r, w') \<longrightarrow>
      (\<exists>rc1 rc2 rc3.
         trace w' = trace w @
           [(Prepare d (c_str sql), 0), (BindText st 1 (c_str name), rc1),
            (BindInt st 2 (sint age), rc2), (Step st, rc3)] @
           (if rc3 = 101 then [(Finalize st, 0)] else []) \<and>
         (r = Inr ()) = (rc3 = 101) \<and>
         (rc3 \<noteq> 101 \<longrightarrow>
            r = Inl (runtime_error (''Failed to execute statement: '' @ sqlite3_errmsg d w'))))) \<and>
   (validateInput name age = Inr () \<and>
    sqlite3_prepare_v2 (db c) UPDATE_SQL w = ((0, st), w1) \<and>
    updateData c ident name age w = (r2, w2) \<longrightarrow>
      (\<exists>rc1 rc2 rc3 rc4.
         trace w2 = trace w @
           [(Prepare (db c) UPDATE_SQL, 0), (BindText st 1 (c_str name), rc1),
            (BindInt st 2 (sint age), rc2), (BindInt st 3 (sint ident), rc3), (Step st, rc4)] @
           (if rc4 = 101 then [(Finalize st, 0)] else []) \<and>
         (r2 = Inr ()) = (rc4 = 101) \<and>
         (rc4 \<noteq> 101 \<longrightarrow>
            r2 = Inl (runtime_error (''Failed to update data: '' @ sqlite3_errmsg (db c) w2)))))"
proof (intro conjI impI)
  assume a: "sqlite3_prepare_v2 d (c_str sql) w = ((0, st), w1) \<and>
    executePreparedSQL d sql name age w = (r, w')"
  show "\<exists>rc1 rc2 rc3.
         trace w' = trace w @
           [(Prepare d (c_str sql), 0), (BindText st 1 (c_str name), rc1),
            (BindInt st 2 (sint age), rc2), (Step st, rc3)] @
           (if rc3 = 101 then [(Finalize st, 0)] else []) \<and>
         (r = Inr ()) = (rc3 = 101) \<and>
         (rc3 \<noteq> 101 \<longrightarrow>
            r = Inl (runtime_error (''Failed to execute statement: '' @ sqlite3_errmsg d w')))"
    by (rule executePreparedSQL_trace [OF conjunct1 [OF a] conjunct2 [OF a]])
next
  assume b: "validateInput name age = Inr () \<and>
    sqlite3_prepare_v2 (db c) UPDATE_SQL w = ((0, st), w1) \<and>
    updateData c ident name age w = (r2, w2)"
  show "\<exists>rc1 rc2 rc3 rc4.
         trace w2 = trace w @
           [(Prepare (db c) UPDATE_SQL, 0), (BindText st 1 (c_str name), rc1),
            (BindInt st 2 (sint age), rc2), (BindInt st 3 (sint ident), rc3), (Step st, rc4)] @
           (if rc4 = 101 then [(Finalize st, 0)] else []) \<and>
         (r2 = Inr ()) = (rc4 = 101) \<and>
         (rc4 \<noteq> 101 \<longrightarrow>
            r2 = Inl (runtime_error (''Failed to update data: '' @ sqlite3_errmsg (db c) w2)))"
    by (rule updateData_trace [OF conjunct1 [OF b] conjunct1 [OF conjunct2 [OF b]]
          conjunct2 [OF conjunct2 [OF b]]])
qed

text \<open>
  C10, witness. In an update the binding of the id fails for lack of memory: the step and
  the finalize follow all the same, the call returns normally, and no row was changed.
  In \<open>executePreparedSQL\<close> the binding of the name fails: the step is made all the
  same, and it is the step's constraint error that is thrown.
\<close>

theorem bind_results_discarded_witness:
  "validateInput ''Bob'' 35 = Inr () \<and>
   fst (sqlite3_prepare_v2 1 UPDATE_SQL
          (opened_world [NoFault, NoFault, NoFault, OutOfMemory] (Some two_users))) = (0, 2) \<and>
   (\<exists>rc1 rc2 rc3 rc4.
      trace (snd (updateData \<lparr>db = 1\<rparr> 2 ''Bob'' 35
                    (opened_world [NoFault, NoFault, NoFault, OutOfMemory] (Some two_users)))) =
        [(Prepare 1 UPDATE_SQL, 0), (BindText 2 1 ''Bob'', rc1), (BindInt 2 2 35, rc2),
         (BindInt 2 3 2, rc3), (Step 2, rc4)] @
        (if rc4 = 101 then [(Finalize 2, 0)] else []) \<and>
      (fst (updateData \<lparr>db = 1\<rparr> 2 ''Bob'' 35
              (opened_world [NoFault, NoFault, NoFault, OutOfMemory] (Some two_users))) = Inr ()) =
        (rc4 = 101)) \<and>
   trace (snd (updateData \<lparr>db = 1\<rparr> 2 ''Bob'' 35
                 (opened_world [NoFault, NoFault, NoFault, OutOfMemory] (Some two_users)))) =
     [(Prepare 1 UPDATE_SQL, 0), (BindText 2 1 ''Bob'', 0), (BindInt 2 2 35, 0),
      (BindInt 2 3 2, 7), (Step 2, 101), (Finalize 2, 0)] \<and>
   fst (updateData \<lparr>db = 1\<rparr> 2 ''Bob'' 35
          (opened_world [NoFault, NoFault, NoFault, OutOfMemory] (Some two_users))) = Inr () \<and>
   users (snd (updateData \<lparr>db = 1\<rparr> 2 ''Bob'' 35
                 (opened_world [NoFault, NoFault, NoFault, OutOfMemory] (Some two_users)))) =
     Some two_users \<and>
   fst (sqlite3_prepare_v2 1 (c_str INSERT_SQL)
          (opened_world [NoFault, OutOfMemory] (Some two_users))) = (0, 2) \<and>
   (\<exists>rc1 rc2 rc3.
      trace (snd (executePreparedSQL 1 INSERT_SQL ''Carol'' 41
                    (opened_world [NoFault, OutOfMemory] (Some two_users)))) =
        [(Prepare 1 INSERT_SQL, 0), (BindText 2 1 ''Carol'', rc1), (BindInt 2 2 41, rc2),
         (Step 2, rc3)] @
        (if rc3 = 101 then [(Finalize 2, 0)] else []) \<and>
      (fst (executePreparedSQL 1 INSERT_SQL ''Carol'' 41
              (opened_world [NoFault, OutOfMemory] (Some two_users))) = Inr ()) = (rc3 = 101)) \<and>
   trace (snd (executePreparedSQL 1 INSERT_SQL ''Carol'' 41
                 (opened_world [NoFault, OutOfMemory] (Some two_users)))) =
     [(Prepare 1 INSERT_SQL, 0), (BindText 2 1 ''Carol'', 7), (BindInt 2 2 41, 0), (Step 2, 19)] \<and>
   fst (executePreparedSQL 1 INSERT_SQL ''Carol'' 41
          (opened_world [NoFault, OutOfMemory] (Some two_users))) =
     Inl (runtime_error ''Failed to execute statement: NOT NULL constraint failed: Users.Name'')"
proof -
  let ?w = "opened_world [NoFault, NoFault, NoFault, OutOfMemory] (Some two_users)"
  let ?v = "opened_world [NoFault, OutOfMemory] (Some two_users)"
  have v: "validateInput ''Bob'' 35 = Inr ()"
    by (simp add: validateInput_def)
  have p0: "fst (sqlite3_prepare_v2 1 UPDATE_SQL ?w) = (0, 2)"
    by code_simp
  then have p: "sqlite3_prepare_v2 (db \<lparr>db = 1\<rparr>) UPDATE_SQL ?w =
      ((0, 2), snd (sqlite3_prepare_v2 1 UPDATE_SQL ?w))"
    by (simp add: prod_eq_iff)
  have run: "updateData \<lparr>db = 1\<rparr> 2 ''Bob'' 35 ?w =
      (fst (updateData \<lparr>db = 1\<rparr> 2 ''Bob'' 35 ?w), snd (updateData \<lparr>db = 1\<rparr> 2 ''Bob'' 35 ?w))"
    by simp
  have tr: "trace (snd (updateData \<lparr>db = 1\<rparr> 2 ''Bob'' 35 ?w)) =
     [(Prepare 1 UPDATE_SQL, 0), (BindText 2 1 ''Bob'', 0), (BindInt 2 2 35, 0),
      (BindInt 2 3 2, 7), (Step 2, 101), (Finalize 2, 0)]"
    by code_simp
  have res: "fst (updateData \<lparr>db = 1\<rparr> 2 ''Bob'' 35 ?w) = Inr ()"
    by code_simp
  have us: "users (snd (updateData \<lparr>db = 1\<rparr> 2 ''Bob'' 35 ?w)) = Some two_users"
    by code_simp
  have c: "c_str ''Bob'' = ''Bob''"
    by (simp add: c_str_def)
  have t0: "trace ?w = []"
    by (simp add: opened_world_def initial_world_def)
  from bind_results_discarded [THEN conjunct2, rule_format, OF conjI [OF v conjI [OF p run]]]
  obtain rc1 rc2 rc3 rc4 where
    "trace (snd (updateData \<lparr>db = 1\<rparr> 2 ''Bob'' 35 ?w)) =
        trace ?w @
        [(Prepare (db \<lparr>db = 1\<rparr>) UPDATE_SQL, 0), (BindText 2 1 (c_str ''Bob''), rc1),
         (BindInt 2 2 (sint (35 :: cint)), rc2), (BindInt 2 3 (sint (2 :: cint)), rc3), (Step 2, rc4)] @
        (if rc4 = 101 then [(Finalize 2, 0)] else [])" and
    "(fst (updateData \<lparr>db = 1\<rparr> 2 ''Bob'' 35 ?w) = Inr ()) = (rc4 = 101)"
    by blast
  then have "\<exists>rc1 rc2 rc3 rc4.
      trace (snd (updateData \<lparr>db = 1\<rparr> 2 ''Bob'' 35 ?w)) =
        [(Prepare 1 UPDATE_SQL, 0), (BindText 2 1 ''Bob'', rc1), (BindInt 2 2 35, rc2),
         (BindInt 2 3 2, rc3), (Step 2, rc4)] @
        (if rc4 = 101 then [(Finalize 2, 0)] else []) \<and>
      (fst (updateData \<lparr>db = 1\<rparr> 2 ''Bob'' 35 ?w) = Inr ()) = (rc4 = 101)"
    unfolding c t0 by (intro exI [of _ rc1] exI [of _ rc2] exI [of _ rc3] exI [of _ rc4]) simp
  note update_part = this
  have q0: "fst (sqlite3_prepare_v2 1 (c_str INSERT_SQL) ?v) = (0, 2)"
    by code_simp
  then have q: "sqlite3_prepare_v2 1 (c_str INSERT_SQL) ?v =
      ((0, 2), snd (sqlite3_prepare_v2 1 (c_str INSERT_SQL) ?v))"
    by (simp add: prod_eq_iff)
  have run2: "executePreparedSQL 1 INSERT_SQL ''Carol'' 41 ?v =
      (fst (executePreparedSQL 1 INSERT_SQL ''Carol'' 41 ?v),
       snd (executePreparedSQL 1 INSERT_SQL ''Carol'' 41 ?v))"
    by simp
  have tr2: "trace (snd (executePreparedSQL 1 INSERT_SQL ''Carol'' 41 ?v)) =
     [(Prepare 1 INSERT_SQL, 0), (BindText 2 1 ''Carol'', 7), (BindInt 2 2 41, 0), (Step 2, 19)]"
    by code_simp
  have res2: "fst (executePreparedSQL 1 INSERT_SQL ''Carol'' 41 ?v) =
     Inl (runtime_error ''Failed to execute statement: NOT NULL constraint failed: Users.Name'')"
    by code_simp
  have c2: "c_str ''Carol'' = ''Carol''"
    by (simp add: c_str_def)
  have t2: "trace ?v = []"
    by (simp add: opened_world_def initial_world_def)
  from bind_results_discarded [THEN conjunct1, rule_format, OF conjI [OF q run2]]
  obtain rc1 rc2 rc3 where
    "trace (snd (executePreparedSQL 1 INSERT_SQL ''Carol'' 41 ?v)) =
        trace ?v @
        [(Prepare 1 (c_str INSERT_SQL), 0), (BindText 2 1 (c_str ''Carol''), rc1),
         (BindInt 2 2 (sint (41 :: cint)), rc2), (Step 2, rc3)] @
        (if rc3 = 101 then [(Finalize 2, 0)] else [])" and
    "(fst (executePreparedSQL 1 INSERT_SQL ''Carol'' 41 ?v) = Inr ()) = (rc3 = 101)"
    by blast
  then have "\<exists>rc1 rc2 rc3.
      trace (snd (executePreparedSQL 1 INSERT_SQL ''Carol'' 41 ?v)) =
        [(Prepare 1 INSERT_SQL, 0), (BindText 2 1 ''Carol'', rc1), (BindInt 2 2 41, rc2),
         (Step 2, rc3)] @
        (if rc3 = 101 then [(Finalize 2, 0)] else []) \<and>
      (fst (executePreparedSQL 1 INSERT_SQL ''Carol'' 41 ?v) = Inr ()) = (rc3 = 101)"
    unfolding c2 t2 c_str_INSERT_SQL
    by (intro exI [of _ rc1] exI [of _ rc2] exI [of _ rc3]) simp
  with update_part v p0 tr res us q0 tr2 res2 show ?thesis by blast
qed

end
